theory Spec2Isabelle
  imports Main "HOL-Library.Sublist" "HOL-Library.AList"
begin

section \<open>Strings\<close>

text \<open>
  Text is a \<^typ>\<open>string\<close>: one \<^typ>\<open>char\<close> stands for one code unit of the program's
  strings, in the range 0..255. The helpers below are the string methods the sources call.
\<close>

definition newline :: char where
  "newline = CHR 0x0A"

text \<open>
  The white space and line terminators that \<^verbatim>\<open>String.prototype.trim\<close> removes, as far
  as they lie in the range of \<^typ>\<open>char\<close>: TAB, LF, VT, FF, CR, SPACE and NBSP.
\<close>

definition isWhiteSpace :: "char \<Rightarrow> bool" where
  "isWhiteSpace c = (c = CHR 0x09 \<or> c = CHR 0x0A \<or> c = CHR 0x0B \<or> c = CHR 0x0C
     \<or> c = CHR 0x0D \<or> c = CHR 0x20 \<or> c = CHR 0xA0)"

definition trim :: "string \<Rightarrow> string" where
  "trim s = rev (dropWhile isWhiteSpace (rev (dropWhile isWhiteSpace s)))"

text \<open>
  \<^verbatim>\<open>toLowerCase\<close>, character by character: the letters A..Z, and the upper-case letters of
  the range 0xC0..0xDE (all of it but the multiplication sign 0xD7), each moved up by 0x20.
\<close>

definition upperCaseLetters :: string where
  "upperCaseLetters = ''ABCDEFGHIJKLMNOPQRSTUVWXYZ'' @
     [CHR 0xC0, CHR 0xC1, CHR 0xC2, CHR 0xC3, CHR 0xC4, CHR 0xC5, CHR 0xC6, CHR 0xC7,
      CHR 0xC8, CHR 0xC9, CHR 0xCA, CHR 0xCB, CHR 0xCC, CHR 0xCD, CHR 0xCE, CHR 0xCF,
      CHR 0xD0, CHR 0xD1, CHR 0xD2, CHR 0xD3, CHR 0xD4, CHR 0xD5, CHR 0xD6,
      CHR 0xD8, CHR 0xD9, CHR 0xDA, CHR 0xDB, CHR 0xDC, CHR 0xDD, CHR 0xDE]"

definition lowerCaseLetters :: string where
  "lowerCaseLetters = ''abcdefghijklmnopqrstuvwxyz'' @
     [CHR 0xE0, CHR 0xE1, CHR 0xE2, CHR 0xE3, CHR 0xE4, CHR 0xE5, CHR 0xE6, CHR 0xE7,
      CHR 0xE8, CHR 0xE9, CHR 0xEA, CHR 0xEB, CHR 0xEC, CHR 0xED, CHR 0xEE, CHR 0xEF,
      CHR 0xF0, CHR 0xF1, CHR 0xF2, CHR 0xF3, CHR 0xF4, CHR 0xF5, CHR 0xF6,
      CHR 0xF8, CHR 0xF9, CHR 0xFA, CHR 0xFB, CHR 0xFC, CHR 0xFD, CHR 0xFE]"

definition toLowerChar :: "char \<Rightarrow> char" where
  "toLowerChar c =
     (case map_of (zip upperCaseLetters lowerCaseLetters) c of
        Some l \<Rightarrow> l
      | None \<Rightarrow> c)"

definition toLowerCase :: "string \<Rightarrow> string" where
  "toLowerCase s = map toLowerChar s"

definition endsWith :: "string \<Rightarrow> string \<Rightarrow> bool" where
  "endsWith s t = suffix t s"

definition startsWith :: "string \<Rightarrow> string \<Rightarrow> bool" where
  "startsWith s t = prefix t s"

section \<open>types/index.ts\<close>

datatype SupportedFileType = TEXT | LOG | MARKDOWN

datatype ProcessingState = NOT_STARTED | IN_PROGRESS | COMPLETED | FAILED | SKIPPED

datatype ErrorCode =
    FILE_READ_ERROR
  | FILE_WRITE_ERROR
  | PERMISSION_DENIED
  | DOCUMENT_MODIFICATION_FAILED
  | UNSUPPORTED_FILE_TYPE
  | CONTENT_ANALYSIS_FAILED
  | TIMESTAMP_GENERATION_FAILED
  | CURSOR_POSITIONING_FAILED
  | UNKNOWN_ERROR

text \<open>The string value of each member of the \<^verbatim>\<open>ErrorCode\<close> enum.\<close>

fun ErrorCode_value :: "ErrorCode \<Rightarrow> string" where
  "ErrorCode_value FILE_READ_ERROR = ''FILE_READ_ERROR''"
| "ErrorCode_value FILE_WRITE_ERROR = ''FILE_WRITE_ERROR''"
| "ErrorCode_value PERMISSION_DENIED = ''PERMISSION_DENIED''"
| "ErrorCode_value DOCUMENT_MODIFICATION_FAILED = ''DOCUMENT_MODIFICATION_FAILED''"
| "ErrorCode_value UNSUPPORTED_FILE_TYPE = ''UNSUPPORTED_FILE_TYPE''"
| "ErrorCode_value CONTENT_ANALYSIS_FAILED = ''CONTENT_ANALYSIS_FAILED''"
| "ErrorCode_value TIMESTAMP_GENERATION_FAILED = ''TIMESTAMP_GENERATION_FAILED''"
| "ErrorCode_value CURSOR_POSITIONING_FAILED = ''CURSOR_POSITIONING_FAILED''"
| "ErrorCode_value UNKNOWN_ERROR = ''UNKNOWN_ERROR''"

text \<open>
  \<^verbatim>\<open>ProcessingResult\<close> and \<^verbatim>\<open>OperationResult\<close> share the fields \<^verbatim>\<open>success\<close> and
  \<^verbatim>\<open>error\<close>; an optional field is an \<^typ>\<open>'a option\<close>. A \<^verbatim>\<open>ProcessingResult\<close> has no
  error-code field.
\<close>

record Outcome =
  success :: bool
  error :: "string option"

record ProcessingResult = Outcome +
  documentModified :: bool
  processingState :: ProcessingState
  timestamp :: "string option"

record 'a OperationResult = Outcome +
  data :: "'a option"
  errorCode :: "string option"

section \<open>The host's text document\<close>

text \<open>
  A \<^verbatim>\<open>vscode.TextDocument\<close> as the sources read it: its lines (without line breaks), its
  name, language identifier, URI with its scheme, and the three flags. A document of the
  editor has at least one line; the sources also test for \<^verbatim>\<open>lineCount === 0\<close>, so the
  list of lines may be empty here.
\<close>

record TextDocument =
  fileName :: string
  languageId :: string
  uri :: string
  scheme :: string
  isUntitled :: bool
  isDirty :: bool
  isClosed :: bool
  textLines :: "string list"

definition lineCount :: "TextDocument \<Rightarrow> int" where
  "lineCount d = int (length (textLines d))"

text \<open>\<^verbatim>\<open>document.lineAt(i).text\<close>; the host throws for a line that does not exist (\<open>None\<close>).\<close>

definition lineAt :: "TextDocument \<Rightarrow> int \<Rightarrow> string option" where
  "lineAt d i = (if 0 \<le> i \<and> i < lineCount d then Some (textLines d ! nat i) else None)"

text \<open>\<^verbatim>\<open>document.getText()\<close>: the lines joined by line feeds.\<close>

fun joinLines :: "string list \<Rightarrow> string" where
  "joinLines [] = []"
| "joinLines [l] = l"
| "joinLines (l # ls) = l @ newline # joinLines ls"

definition getText :: "TextDocument \<Rightarrow> string" where
  "getText d = joinLines (textLines d)"

section \<open>services/contentAnalyzer.ts\<close>

text \<open>
  Each method of the analyzer wraps its body in \<^verbatim>\<open>try\<close>/\<^verbatim>\<open>catch\<close>. The body reads the
  name, the language identifier and the first line of a document that has one; the only
  read that can throw is \<^verbatim>\<open>lineAt\<close>, and its failure is the \<open>None\<close> branch below.
\<close>

definition LOG_PREFIX :: string where
  "LOG_PREFIX = ''.LOG''"

definition SUPPORTED_EXTENSIONS :: "string set" where
  "SUPPORTED_EXTENSIONS = {''txt'', ''log'', ''md''}"

text \<open>
  \<^verbatim>\<open>fileName.match(/\.([^.]+)$/)\<close>, first capture group: the text after the last full stop,
  when there is a full stop and that text is not empty.
\<close>

definition extensionMatch :: "string \<Rightarrow> string option" where
  "extensionMatch name =
     (let r = takeWhile (\<lambda>c. c \<noteq> CHR ''.'') (rev name)
      in if length r < length name \<and> r \<noteq> [] then Some (rev r) else None)"

definition languageType :: "string \<Rightarrow> SupportedFileType option" where
  "languageType lang =
     (if lang = ''plaintext'' then Some TEXT
      else if lang = ''log'' then Some LOG
      else if lang = ''markdown'' then Some MARKDOWN
      else None)"

definition getFileType :: "TextDocument \<Rightarrow> SupportedFileType option" where
  "getFileType d =
     (case extensionMatch (fileName d) of
        Some m \<Rightarrow>
          (let extension = toLowerCase m in
           if extension \<in> SUPPORTED_EXTENSIONS then
             (if extension = ''txt'' then Some TEXT
              else if extension = ''log'' then Some LOG
              else Some MARKDOWN)
           else languageType (languageId d))
      | None \<Rightarrow> languageType (languageId d))"

definition isLogFile :: "TextDocument \<Rightarrow> bool" where
  "isLogFile d =
     (if lineCount d = 0 then False
      else case lineAt d 0 of
             None \<Rightarrow> False
           | Some firstLine \<Rightarrow> trim firstLine = LOG_PREFIX)"

definition shouldProcessDocument :: "TextDocument \<Rightarrow> bool" where
  "shouldProcessDocument d =
     (if lineCount d = 0 then False
      else case lineAt d 0 of
             None \<Rightarrow> False
           | Some firstLine \<Rightarrow>
               (let hasLogPrefix = (trim firstLine = LOG_PREFIX);
                    isSupportedType = (getFileType d \<noteq> None)
                in hasLogPrefix \<and> isSupportedType))"

text \<open>
  \<^verbatim>\<open>DocumentContext\<close>; its \<^verbatim>\<open>document\<close> field is the document analysed, which every
  caller already holds.
\<close>

record DocumentContext =
  fileType :: SupportedFileType
  ctxTimestamp :: string
  shouldProcess :: bool
  ctxProcessingState :: ProcessingState

definition analyzeContent :: "TextDocument \<Rightarrow> DocumentContext OperationResult" where
  "analyzeContent d =
     (case getFileType d of
        None \<Rightarrow> \<lparr>success = False, error = Some ''Unsupported file type'',
                  data = None, errorCode = Some (ErrorCode_value UNSUPPORTED_FILE_TYPE)\<rparr>
      | Some ft \<Rightarrow>
          (let sp = shouldProcessDocument d in
           \<lparr>success = True, error = None,
            data = Some \<lparr>fileType = ft, ctxTimestamp = '''', shouldProcess = sp,
                         ctxProcessingState = (if sp then NOT_STARTED else SKIPPED)\<rparr>,
            errorCode = None\<rparr>))"

section \<open>handlers/baseFileHandler.ts: the marker test\<close>

definition hasLogPrefix :: "TextDocument \<Rightarrow> bool" where
  "hasLogPrefix d =
     (if lineCount d = 0 then False
      else case lineAt d 0 of
             None \<Rightarrow> False
           | Some firstLine \<Rightarrow> trim firstLine = ''.LOG'')"


section \<open>services/timestampService.ts\<close>

text \<open>
  A \<^verbatim>\<open>Date\<close> as its getters show it in local time: \<^verbatim>\<open>getFullYear()\<close>, \<^verbatim>\<open>getMonth()\<close>
  (0..11), \<^verbatim>\<open>getDate()\<close>, \<^verbatim>\<open>getHours()\<close> and \<^verbatim>\<open>getMinutes()\<close>.
\<close>

record Date =
  getFullYear :: int
  getMonth :: nat
  getDate :: nat
  getHours :: nat
  getMinutes :: nat

definition validDate :: "Date \<Rightarrow> bool" where
  "validDate d = (getMonth d \<le> 11 \<and> 1 \<le> getDate d \<and> getDate d \<le> 31
     \<and> getHours d \<le> 23 \<and> getMinutes d \<le> 59)"

definition digitChar :: "nat \<Rightarrow> char" where
  "digitChar n = ''0123456789'' ! (n mod 10)"

text \<open>\<^verbatim>\<open>String(n)\<close> for a natural number and for an integer: decimal digits, with a sign.\<close>

fun natToString :: "nat \<Rightarrow> string" where
  "natToString n = (if n < 10 then [digitChar n] else natToString (n div 10) @ [digitChar n])"

declare natToString.simps [simp del]

definition intToString :: "int \<Rightarrow> string" where
  "intToString i = (if i < 0 then CHR ''-'' # natToString (nat (- i)) else natToString (nat i))"

text \<open>\<^verbatim>\<open>s.padStart(n, '0')\<close>\<close>

definition padStart :: "string \<Rightarrow> nat \<Rightarrow> char \<Rightarrow> string" where
  "padStart s n c = replicate (n - length s) c @ s"

definition formatTimestamp :: "Date \<Rightarrow> string" where
  "formatTimestamp d =
     (let year = getFullYear d;
          month = padStart (natToString (getMonth d + 1)) 2 (CHR ''0'');
          day = padStart (natToString (getDate d)) 2 (CHR ''0'');
          hours24 = getHours d;
          hours12 = (if hours24 = 0 then 12 else if hours24 > 12 then hours24 - 12 else hours24);
          ampm = (if hours24 \<ge> 12 then ''PM'' else ''AM'');
          hours = padStart (natToString hours12) 2 (CHR ''0'');
          minutes = padStart (natToString (getMinutes d)) 2 (CHR ''0'')
      in intToString year @ ''-'' @ month @ ''-'' @ day @ '' '' @ hours @ '':'' @ minutes
           @ '' '' @ ampm)"

text \<open>\<^verbatim>\<open>generateTimestamp()\<close> reads the clock; the instant it reads is the argument.\<close>

definition generateTimestamp :: "Date \<Rightarrow> string" where
  "generateTimestamp now = formatTimestamp now"

definition getCurrentTimestamp :: "Date \<Rightarrow> string OperationResult" where
  "getCurrentTimestamp now =
     \<lparr>success = True, error = None, data = Some (generateTimestamp now), errorCode = None\<rparr>"

text \<open>
  The two regular expressions of the test suites for a raw timestamp:
  \<^verbatim>\<open>/^\d{4}-\d{2}-\d{2} \d{2}:\d{2}$/\<close> and \<^verbatim>\<open>/^\d{4}-\d{2}-\d{2} \d{2}:\d{2} (AM|PM)$/\<close>.
\<close>

definition isDigit :: "char \<Rightarrow> bool" where
  "isDigit c = (c \<in> set ''0123456789'')"

definition matchesDateTime :: "string \<Rightarrow> bool" where
  "matchesDateTime s =
     (length s = 16 \<and> list_all isDigit (take 4 s) \<and> s ! 4 = CHR ''-''
      \<and> list_all isDigit (take 2 (drop 5 s)) \<and> s ! 7 = CHR ''-''
      \<and> list_all isDigit (take 2 (drop 8 s)) \<and> s ! 10 = CHR '' ''
      \<and> list_all isDigit (take 2 (drop 11 s)) \<and> s ! 13 = CHR '':''
      \<and> list_all isDigit (take 2 (drop 14 s)))"

definition matches24Hour :: "string \<Rightarrow> bool" where
  "matches24Hour s = matchesDateTime s"

definition matches12Hour :: "string \<Rightarrow> bool" where
  "matches12Hour s =
     (length s = 19 \<and> matchesDateTime (take 16 s)
      \<and> (drop 16 s = '' AM'' \<or> drop 16 s = '' PM''))"

section \<open>services/errorLogger.ts and the state of the run\<close>

text \<open>A thrown value: an \<^verbatim>\<open>Error\<close> with its message, or anything else.\<close>

datatype Exn = JsError string | NonError

definition messageOr :: "Exn \<Rightarrow> string \<Rightarrow> string" where
  "messageOr x dflt = (case x of JsError m \<Rightarrow> m | NonError \<Rightarrow> dflt)"

text \<open>\<^verbatim>\<open>s || dflt\<close> for an optional string: the default replaces a missing or empty one.\<close>

definition orElse :: "string option \<Rightarrow> string \<Rightarrow> string" where
  "orElse s dflt = (case s of None \<Rightarrow> dflt | Some t \<Rightarrow> if t = [] then dflt else t)"

record ExtensionError =
  message :: string
  code :: ErrorCode

type_synonym Position = "nat \<times> nat"

record TextEditor =
  editorUri :: string
  selection :: "Position \<times> Position"
  revealed :: "Position option"

record FileStat =
  statType :: nat
  statPermissions :: "nat option"

record FileMonitor =
  disposable :: "nat option"
  isActive :: bool

text \<open>
  Everything a run reads or changes: the host's document and active editor, the host's
  answer to \<^verbatim>\<open>fs.stat\<close> for the document's file, the status bar, the number of
  \<^verbatim>\<open>applyEdit\<close> calls made so far, the logger's \<^verbatim>\<open>errorHistory\<close>, the recovery service's
  \<^verbatim>\<open>retryAttempts\<close> and the monitor's two fields. The logger's output channel is write-only
  and left out, so \<^verbatim>\<open>logDebug\<close>, \<^verbatim>\<open>logInfo\<close> and \<^verbatim>\<open>logWarning\<close> leave no trace here.
  During a run the host changes the document only by applying an edit it was asked for.
\<close>

record World =
  document :: TextDocument
  activeTextEditor :: "TextEditor option"
  fileStat :: "Exn + FileStat"
  statusBarMessage :: "string option"
  editCalls :: nat
  errorHistory :: "ExtensionError list"
  retryAttempts :: "(string \<times> nat) list"
  monitor :: FileMonitor

definition maxHistorySize :: nat where
  "maxHistorySize = 100"

definition addToHistory :: "ExtensionError \<Rightarrow> ExtensionError list \<Rightarrow> ExtensionError list" where
  "addToHistory e hist =
     (let h = hist @ [e] in if length h > maxHistorySize then drop (length h - maxHistorySize) h else h)"

definition logError :: "string \<Rightarrow> ErrorCode option \<Rightarrow> World \<Rightarrow> World" where
  "logError msg errCode w =
     w\<lparr>errorHistory :=
         addToHistory \<lparr>message = msg,
                       code = (case errCode of Some c \<Rightarrow> c | None \<Rightarrow> UNKNOWN_ERROR)\<rparr>
           (errorHistory w)\<rparr>"

definition logPermissionError :: "string \<Rightarrow> string \<Rightarrow> World \<Rightarrow> World" where
  "logPermissionError operation filePath w =
     logError (''Permission denied for '' @ operation @ '' on file: '' @ filePath)
       (Some PERMISSION_DENIED) w"

definition logDocumentModificationError :: "string \<Rightarrow> string \<Rightarrow> World \<Rightarrow> World" where
  "logDocumentModificationError filePath operation w =
     logError (''Document modification failed: '' @ operation @ '' on '' @ filePath)
       (Some DOCUMENT_MODIFICATION_FAILED) w"

section \<open>services/errorRecovery.ts\<close>

definition recovery_maxRetries :: nat where
  "recovery_maxRetries = 3"

definition failed :: "string \<Rightarrow> string \<Rightarrow> 'a OperationResult" where
  "failed msg c = \<lparr>success = False, error = Some msg, data = None, errorCode = Some c\<rparr>"

text \<open>
  The retry loop of \<^verbatim>\<open>recoverFromDocumentModificationFailure\<close>. The retried operation
  takes the state and returns a result or throws. The delays between attempts take time
  and change nothing else.
\<close>

function recoveryLoop ::
  "(World \<Rightarrow> (Exn + 'a OperationResult) \<times> World) \<Rightarrow> string \<Rightarrow> string \<Rightarrow> nat \<Rightarrow> World
     \<Rightarrow> 'a OperationResult \<times> World" where
  "recoveryLoop retryFunction recoveryKey operation currentAttempts w =
     (if currentAttempts < recovery_maxRetries then
        if isClosed (document w) then
          (failed ''Document was closed during recovery attempt''
             (ErrorCode_value DOCUMENT_MODIFICATION_FAILED),
           w\<lparr>retryAttempts := AList.delete recoveryKey (retryAttempts w)\<rparr>)
        else
          let attempts = currentAttempts + 1;
              w1 = w\<lparr>retryAttempts := AList.update recoveryKey attempts (retryAttempts w)\<rparr>
          in case retryFunction w1 of
               (Inr result, w2) \<Rightarrow>
                 if success result then
                   (result, w2\<lparr>retryAttempts := AList.delete recoveryKey (retryAttempts w2)\<rparr>)
                 else if attempts \<ge> recovery_maxRetries then
                   (failed (''Maximum retry attempts ('' @ natToString recovery_maxRetries
                              @ '') exceeded for '' @ operation)
                      (ErrorCode_value DOCUMENT_MODIFICATION_FAILED),
                    w2\<lparr>retryAttempts := AList.delete recoveryKey (retryAttempts w2)\<rparr>)
                 else recoveryLoop retryFunction recoveryKey operation attempts w2
             | (Inl x, w2) \<Rightarrow>
                 if attempts \<ge> recovery_maxRetries then
                   (failed (messageOr x ''Recovery attempt failed'')
                      (ErrorCode_value DOCUMENT_MODIFICATION_FAILED),
                    w2\<lparr>retryAttempts := AList.delete recoveryKey (retryAttempts w2)\<rparr>)
                 else recoveryLoop retryFunction recoveryKey operation attempts w2
      else
        (failed (''Maximum retry attempts ('' @ natToString recovery_maxRetries
                   @ '') exceeded for '' @ operation)
           (ErrorCode_value DOCUMENT_MODIFICATION_FAILED),
         w\<lparr>retryAttempts := AList.delete recoveryKey (retryAttempts w)\<rparr>))"
  by pat_completeness auto
termination
  by (relation "measure (\<lambda>(f, k, operation, n, w). recovery_maxRetries - n)") auto

declare recoveryLoop.simps [simp del]

definition recoverFromDocumentModificationFailure ::
  "string \<Rightarrow> (World \<Rightarrow> (Exn + 'a OperationResult) \<times> World) \<Rightarrow> World
     \<Rightarrow> 'a OperationResult \<times> World" where
  "recoverFromDocumentModificationFailure operation retryFunction w =
     (let recoveryKey = uri (document w) @ ''-'' @ operation;
          currentAttempts = (case map_of (retryAttempts w) recoveryKey of
                               None \<Rightarrow> 0 | Some n \<Rightarrow> n);
          w1 = logDocumentModificationError (fileName (document w)) operation w
      in recoveryLoop retryFunction recoveryKey operation currentAttempts w1)"

text \<open>\<^verbatim>\<open>suggestions.join(' ')\<close>\<close>

fun joinWithSpace :: "string list \<Rightarrow> string" where
  "joinWithSpace [] = []"
| "joinWithSpace [x] = x"
| "joinWithSpace (x # xs) = x @ '' '' @ joinWithSpace xs"

text \<open>
  \<^verbatim>\<open>FilePermission.Readonly\<close> is bit 0 of the permissions; \<^verbatim>\<open>FileType.Directory\<close> is 2.
\<close>

definition recoverFromPermissionError ::
  "string \<Rightarrow> string \<Rightarrow> World \<Rightarrow> string OperationResult \<times> World" where
  "recoverFromPermissionError filePath operation w =
     (let w1 = logPermissionError operation filePath w in
      case fileStat w1 of
        Inr stat \<Rightarrow>
          (let s1 = (case statPermissions stat of
                       Some p \<Rightarrow> if odd p
                                 then [''File is marked as read-only. Consider changing file permissions.'']
                                 else []
                     | None \<Rightarrow> []);
               s2 = (if statType stat = 2
                     then [''Target is a directory, not a file. Check the file path.'']
                     else []);
               suggestions = s1 @ s2 @
                 [''Verify that VS Code has permission to modify this file.'',
                  ''Check if the file is open in another application.'',
                  ''Try saving the file manually first.'']
           in (\<lparr>success = True, error = None, data = Some (joinWithSpace suggestions),
                errorCode = Some (ErrorCode_value PERMISSION_DENIED)\<rparr>, w1))
      | Inl x \<Rightarrow>
          (failed (''Cannot access file for recovery analysis: '' @ messageOr x ''Unknown error'')
             (ErrorCode_value FILE_READ_ERROR), w1))"

definition showGracefulFailureNotification :: "string \<Rightarrow> World \<Rightarrow> World" where
  "showGracefulFailureNotification name w =
     w\<lparr>statusBarMessage := Some (''dotLOG: Could not add timestamp to '' @ name)\<rparr>"

definition gracefulTimestampFailure :: "string \<Rightarrow> string \<Rightarrow> World \<Rightarrow> ProcessingResult \<times> World" where
  "gracefulTimestampFailure ts originalMessage w =
     (let w1 = logError (''Graceful failure: Could not insert timestamp into ''
                           @ fileName (document w))
                 (Some DOCUMENT_MODIFICATION_FAILED) w;
          w2 = showGracefulFailureNotification (fileName (document w1)) w1
      in (\<lparr>success = False, error = Some (''Could not insert timestamp: '' @ originalMessage),
           documentModified = False, processingState = FAILED, timestamp = Some ts\<rparr>, w2))"

definition gracefulCursorPositioningFailure :: "string \<Rightarrow> unit OperationResult" where
  "gracefulCursorPositioningFailure originalMessage =
     \<lparr>success = True, error = Some (''Cursor positioning failed: '' @ originalMessage),
      data = None, errorCode = Some (ErrorCode_value CURSOR_POSITIONING_FAILED)\<rparr>"

definition clearRetryHistory :: "World \<Rightarrow> World" where
  "clearRetryHistory w =
     w\<lparr>retryAttempts :=
         filter (\<lambda>(key, n). \<not> startsWith key (uri (document w))) (retryAttempts w)\<rparr>"

section \<open>The host's edit primitive\<close>

text \<open>
  \<^verbatim>\<open>vscode.workspace.applyEdit\<close> resolves to true after applying the edit, resolves to
  false without applying it, or fails (the promise rejects, or the five-second timeout of
  the caller wins the race) without applying it. Which of these happens at each call is
  the host's choice: the script gives the outcome of the call number \<open>k\<close>.
\<close>

datatype EditOutcome = Applied | Rejected | Threw Exn

type_synonym EditScript = "nat \<Rightarrow> EditOutcome"

record WorkspaceEdit =
  editPosition :: Position
  editText :: string

text \<open>The lines of a text: it is cut at each line feed.\<close>

fun splitLines :: "string \<Rightarrow> string list" where
  "splitLines [] = [[]]"
| "splitLines (c # cs) =
     (if c = newline then [] # splitLines cs
      else (c # hd (splitLines cs)) # tl (splitLines cs))"

text \<open>
  Inserting a text at a position of the document. A position whose line does not exist
  is never built by the sources; the text stays as it is there.
\<close>

definition insertAt :: "string list \<Rightarrow> Position \<Rightarrow> string \<Rightarrow> string list" where
  "insertAt ls p t =
     (let l = fst p; c = snd p in
      if l < length ls
      then take l ls @ splitLines (take c (ls ! l) @ t @ drop c (ls ! l)) @ drop (Suc l) ls
      else ls)"

definition applyEdit :: "EditScript \<Rightarrow> WorkspaceEdit \<Rightarrow> World \<Rightarrow> (Exn + bool) \<times> World" where
  "applyEdit host edit w =
     (let w1 = w\<lparr>editCalls := Suc (editCalls w)\<rparr> in
      case host (editCalls w) of
        Applied \<Rightarrow>
          (Inr True,
           w1\<lparr>document := (document w1)
                \<lparr>textLines := insertAt (textLines (document w1)) (editPosition edit) (editText edit)\<rparr>\<rparr>)
      | Rejected \<Rightarrow> (Inr False, w1)
      | Threw x \<Rightarrow> (Inl x, w1))"

section \<open>services/documentEditor.ts\<close>

definition editor_maxRetries :: nat where
  "editor_maxRetries = 1"

text \<open>\<^verbatim>\<open>canModifyDocument\<close> reads four properties of the document and logs; nothing in it throws.\<close>

definition canModifyDocument :: "TextDocument \<Rightarrow> bool" where
  "canModifyDocument d =
     (if isClosed d then False
      else if isUntitled d \<and> isDirty d = False then True
      else if scheme d = ''file'' then True
      else scheme d = ''untitled'')"

definition prepareTextForInsertion :: "TextDocument \<Rightarrow> string \<Rightarrow> string" where
  "prepareTextForInsertion d text =
     (if lineCount d = 0 then text
      else
        let lastLine = the (lineAt d (lineCount d - 1));
            needsNewlineBefore = (length lastLine > 0);
            needsNewlineAfter = (\<not> endsWith text [newline]);
            preparedText = text;
            preparedText = (if needsNewlineBefore then newline # preparedText else preparedText);
            preparedText = (if needsNewlineAfter then preparedText @ [newline] else preparedText)
        in preparedText)"

text \<open>The loop of \<^verbatim>\<open>applyEditWithRetry\<close>, from the attempt given.\<close>

function applyEditLoop :: "EditScript \<Rightarrow> WorkspaceEdit \<Rightarrow> nat \<Rightarrow> World \<Rightarrow> bool OperationResult \<times> World" where
  "applyEditLoop host edit attempt w =
     (if attempt \<le> editor_maxRetries then
        case applyEdit host edit w of
          (Inr ok, w1) \<Rightarrow>
            if ok then (\<lparr>success = True, error = None, data = Some True, errorCode = None\<rparr>, w1)
            else if attempt < editor_maxRetries then applyEditLoop host edit (attempt + 1) w1
            else (failed ''Failed to apply document edit''
                    (ErrorCode_value DOCUMENT_MODIFICATION_FAILED), w1)
        | (Inl x, w1) \<Rightarrow>
            if attempt < editor_maxRetries then applyEditLoop host edit (attempt + 1) w1
            else (failed (''Edit operation failed: '' @ messageOr x ''Unknown error'')
                    (ErrorCode_value DOCUMENT_MODIFICATION_FAILED), w1)
      else (failed ''Maximum retry attempts exceeded''
              (ErrorCode_value DOCUMENT_MODIFICATION_FAILED), w))"
  by pat_completeness auto
termination
  by (relation "measure (\<lambda>(h, e, n, w). Suc editor_maxRetries - n)") auto

declare applyEditLoop.simps [simp del]

definition applyEditWithRetry :: "EditScript \<Rightarrow> WorkspaceEdit \<Rightarrow> World \<Rightarrow> bool OperationResult \<times> World" where
  "applyEditWithRetry host edit w = applyEditLoop host edit 0 w"

definition applyEditWithRetryAndRecovery ::
  "EditScript \<Rightarrow> WorkspaceEdit \<Rightarrow> World \<Rightarrow> bool OperationResult \<times> World" where
  "applyEditWithRetryAndRecovery host edit w =
     (let retryFunction = (\<lambda>v. case applyEditWithRetry host edit v of (r, v1) \<Rightarrow> (Inr r, v1)) in
      case retryFunction w of
        (Inr result, w1) \<Rightarrow>
          if \<not> success result then
            recoverFromDocumentModificationFailure ''applyEdit'' retryFunction w1
          else (result, w1)
      | (Inl x, w1) \<Rightarrow>
          recoverFromDocumentModificationFailure ''applyEdit'' retryFunction w1)"

text \<open>
  The host's \<^verbatim>\<open>lineAt\<close> throws an \<^verbatim>\<open>Error\<close> for a line that does not exist; its message
  is \<open>illegalLine\<close>.
\<close>

definition illegalLine :: string where
  "illegalLine = ''Illegal value for `line`''"

definition insertTextAtEnd :: "EditScript \<Rightarrow> string \<Rightarrow> World \<Rightarrow> bool OperationResult \<times> World" where
  "insertTextAtEnd host text w =
     (let d = document w in
      if \<not> canModifyDocument d then
        (case recoverFromPermissionError (fileName d) ''insertTextAtEnd'' w of
           (permissionResult, w1) \<Rightarrow>
             (let w2 = logPermissionError ''insertTextAtEnd'' (fileName d) w1 in
              (failed (''Document is read-only or cannot be modified. ''
                         @ (if success permissionResult then the (data permissionResult) else []))
                 (ErrorCode_value PERMISSION_DENIED), w2)))
      else
        let lastLine = lineCount d - 1 in
        case lineAt d lastLine of
          None \<Rightarrow>
            (let errorMessage = ''Failed to insert text: '' @ illegalLine;
                 w1 = logError illegalLine (Some DOCUMENT_MODIFICATION_FAILED) w
             in (failed errorMessage (ErrorCode_value DOCUMENT_MODIFICATION_FAILED), w1))
        | Some lastLineText \<Rightarrow>
            (let endPosition = (nat lastLine, length lastLineText);
                 textToInsert = prepareTextForInsertion d text;
                 edit = \<lparr>editPosition = endPosition, editText = textToInsert\<rparr>
             in applyEditWithRetryAndRecovery host edit w))"

definition positionCursorAtEnd :: "World \<Rightarrow> unit OperationResult \<times> World" where
  "positionCursorAtEnd w =
     (let d = document w in
      case activeTextEditor w of
        None \<Rightarrow> (failed ''No active editor found for the document''
                   (ErrorCode_value CURSOR_POSITIONING_FAILED), w)
      | Some editor \<Rightarrow>
          if editorUri editor \<noteq> uri d then
            (failed ''No active editor found for the document''
               (ErrorCode_value CURSOR_POSITIONING_FAILED), w)
          else
            let lastLine = lineCount d - 1 in
            (case lineAt d lastLine of
               None \<Rightarrow> (gracefulCursorPositioningFailure illegalLine, w)
             | Some lastLineText \<Rightarrow>
                 (let endPosition = (nat lastLine, length lastLineText) in
                  (\<lparr>success = True, error = None, data = None, errorCode = None\<rparr>,
                   w\<lparr>activeTextEditor :=
                       Some (editor\<lparr>selection := (endPosition, endPosition),
                                    revealed := Some endPosition\<rparr>)\<rparr>))))"

section \<open>handlers: baseFileHandler.ts, textFileHandler.ts, logFileHandler.ts, markdownFileHandler.ts\<close>

datatype FileHandler = TextFileHandler | LogFileHandler | MarkdownFileHandler

fun handler_getFileType :: "FileHandler \<Rightarrow> SupportedFileType" where
  "handler_getFileType TextFileHandler = TEXT"
| "handler_getFileType LogFileHandler = LOG"
| "handler_getFileType MarkdownFileHandler = MARKDOWN"

text \<open>The \<^verbatim>\<open>formatTimestamp\<close> of each handler class.\<close>

fun handler_formatTimestamp :: "FileHandler \<Rightarrow> string \<Rightarrow> string" where
  "handler_formatTimestamp TextFileHandler ts = newline # ts @ [newline]"
| "handler_formatTimestamp LogFileHandler ts = newline # ts @ [newline]"
| "handler_formatTimestamp MarkdownFileHandler ts = newline # ''## '' @ ts @ [newline]"

definition getFileExtension :: "TextDocument \<Rightarrow> string" where
  "getFileExtension d =
     (let name = fileName d;
          r = takeWhile (\<lambda>c. c \<noteq> CHR ''.'') (rev name)
      in if length r < length name \<and> length name - length r - 1 > 0
         then toLowerCase (rev r) else [])"

fun canHandle :: "FileHandler \<Rightarrow> TextDocument \<Rightarrow> bool" where
  "canHandle TextFileHandler d = (getFileExtension d = ''txt'' \<and> hasLogPrefix d)"
| "canHandle LogFileHandler d = (getFileExtension d = ''log'' \<and> hasLogPrefix d)"
| "canHandle MarkdownFileHandler d = (getFileExtension d = ''md'' \<and> hasLogPrefix d)"

text \<open>
  \<^verbatim>\<open>processDocument\<close>. Every operation it calls returns a result and catches what the host
  throws, so the \<^verbatim>\<open>catch\<close> clause around its body has no branch here.
\<close>

definition processDocument ::
  "FileHandler \<Rightarrow> EditScript \<Rightarrow> string \<Rightarrow> World \<Rightarrow> ProcessingResult \<times> World" where
  "processDocument handler host ts w =
     (if \<not> canModifyDocument (document w) then
        (\<lparr>success = False, error = Some ''Document is read-only or cannot be modified'',
          documentModified = False, processingState = FAILED, timestamp = None\<rparr>, w)
      else
        let formattedTimestamp = handler_formatTimestamp handler ts in
        case insertTextAtEnd host formattedTimestamp w of
          (insertResult, w1) \<Rightarrow>
            if \<not> success insertResult then
              (let msg = orElse (error insertResult) ''Failed to insert timestamp'';
                   w2 = logError msg None w1
               in gracefulTimestampFailure formattedTimestamp msg w2)
            else
              (case positionCursorAtEnd w1 of
                 (cursorResult, w2) \<Rightarrow>
                   (\<lparr>success = True, error = None, documentModified = True,
                     processingState = COMPLETED, timestamp = Some formattedTimestamp\<rparr>, w2)))"

section \<open>extension.ts: the handlers registered at activation\<close>

definition activate_fileHandlers :: "SupportedFileType \<Rightarrow> FileHandler option" where
  "activate_fileHandlers t =
     (case t of TEXT \<Rightarrow> Some TextFileHandler
              | LOG \<Rightarrow> Some LogFileHandler
              | MARKDOWN \<Rightarrow> Some MarkdownFileHandler)"

section \<open>services/fileMonitor.ts\<close>

fun SupportedFileType_value :: "SupportedFileType \<Rightarrow> string" where
  "SupportedFileType_value TEXT = ''txt''"
| "SupportedFileType_value LOG = ''log''"
| "SupportedFileType_value MARKDOWN = ''md''"

text \<open>
  \<^verbatim>\<open>startMonitoring\<close>: the first argument is what the host's
  \<^verbatim>\<open>onDidOpenTextDocument\<close> does when called: it throws, or returns a disposable.
\<close>

definition startMonitoring :: "Exn + nat \<Rightarrow> World \<Rightarrow> unit OperationResult \<times> World" where
  "startMonitoring subscription w =
     (if isActive (monitor w) then
        (failed ''File monitoring is already active'' ''MONITOR_ALREADY_ACTIVE'', w)
      else
        case subscription of
          Inr d \<Rightarrow>
            (\<lparr>success = True, error = None, data = None, errorCode = None\<rparr>,
             w\<lparr>monitor := (monitor w)\<lparr>disposable := Some d, isActive := True\<rparr>\<rparr>)
        | Inl x \<Rightarrow>
            (let errorMessage = messageOr x ''Failed to start monitoring'';
                 w1 = logError errorMessage None w
             in (failed errorMessage ''MONITOR_START_FAILED'', w1)))"

text \<open>
  \<^verbatim>\<open>stopMonitoring\<close>: the first argument is what the disposable's \<^verbatim>\<open>dispose\<close> does when
  called: it throws (\<open>Some\<close>), or returns.
\<close>

definition stopMonitoring :: "Exn option \<Rightarrow> World \<Rightarrow> unit OperationResult \<times> World" where
  "stopMonitoring disposal w =
     (if \<not> isActive (monitor w) then
        (failed ''File monitoring is not active'' ''MONITOR_NOT_ACTIVE'', w)
      else
        case (if disposable (monitor w) \<noteq> None then disposal else None) of
          None \<Rightarrow>
            (\<lparr>success = True, error = None, data = None, errorCode = None\<rparr>,
             w\<lparr>monitor := (monitor w)\<lparr>disposable := None, isActive := False\<rparr>\<rparr>)
        | Some x \<Rightarrow>
            (let errorMessage = messageOr x ''Failed to stop monitoring'';
                 w1 = logError errorMessage None w
             in (failed errorMessage ''MONITOR_STOP_FAILED'', w1)))"

definition isMonitoring :: "World \<Rightarrow> bool" where
  "isMonitoring w = isActive (monitor w)"

definition dispose :: "Exn option \<Rightarrow> World \<Rightarrow> World" where
  "dispose disposal w = snd (stopMonitoring disposal w)"

text \<open>
  \<^verbatim>\<open>onDocumentOpened\<close>. The analysis, the timestamp and the handler all return results, so
  the \<^verbatim>\<open>catch\<close> clause around the body has no branch here. A timestamp result without
  data, or with the empty string, counts as a failure (\<^verbatim>\<open>!timestampResult.data\<close>).
\<close>

definition onDocumentOpened ::
  "(SupportedFileType \<Rightarrow> FileHandler option) \<Rightarrow> Date \<Rightarrow> EditScript \<Rightarrow> World
     \<Rightarrow> ProcessingResult \<times> World" where
  "onDocumentOpened fileHandlers now host w =
     (let analysisResult = analyzeContent (document w) in
      if \<not> success analysisResult \<or> data analysisResult = None then
        (let msg = orElse (error analysisResult) ''Content analysis failed'';
             w1 = logError msg (Some CONTENT_ANALYSIS_FAILED) w
         in (\<lparr>success = False, error = Some msg, documentModified = False,
              processingState = FAILED, timestamp = None\<rparr>, w1))
      else
        let context = the (data analysisResult) in
        if \<not> shouldProcess context then
          (\<lparr>success = True, error = None, documentModified = False,
            processingState = SKIPPED, timestamp = None\<rparr>, w)
        else
          let timestampResult = getCurrentTimestamp now in
          if \<not> success timestampResult \<or> data timestampResult = None
               \<or> data timestampResult = Some [] then
            (let msg = orElse (error timestampResult) ''Failed to generate timestamp'';
                 w1 = logError msg (Some TIMESTAMP_GENERATION_FAILED) w
             in (\<lparr>success = False, error = Some msg, documentModified = False,
                  processingState = FAILED, timestamp = None\<rparr>, w1))
          else
            (case fileHandlers (fileType context) of
               None \<Rightarrow>
                 (let errorMessage = ''No handler found for file type: ''
                                       @ SupportedFileType_value (fileType context);
                      w1 = logError errorMessage None w
                  in (\<lparr>success = False, error = Some errorMessage, documentModified = False,
                       processingState = FAILED, timestamp = None\<rparr>, w1))
             | Some handler \<Rightarrow>
                 (case processDocument handler host (the (data timestampResult)) w of
                    (processingResult, w1) \<Rightarrow>
                      if success processingResult then (processingResult, w1)
                      else (processingResult,
                            logError (orElse (error processingResult) ''Handler processing failed'')
                              None w1))))"

text \<open>
  The listener of the open event. It returns nothing; what remains of a call is the
  state it leaves.
\<close>

definition handleDocumentOpened ::
  "(SupportedFileType \<Rightarrow> FileHandler option) \<Rightarrow> Date \<Rightarrow> EditScript \<Rightarrow> World \<Rightarrow> World" where
  "handleDocumentOpened fileHandlers now host w =
     (case getFileType (document w) of
        None \<Rightarrow> w
      | Some ft \<Rightarrow>
          (case onDocumentOpened fileHandlers now host w of
             (result, w1) \<Rightarrow>
               (let w2 = (if success result then clearRetryHistory w1 else w1) in
                if \<not> success result
                then logError (orElse (error result) ''Document processing failed'') None w2
                else w2)))"

section \<open>Notions used in the statements\<close>

text \<open>The hour of the twelve-hour clock.\<close>

definition hours12 :: "nat \<Rightarrow> nat" where
  "hours12 h = (if h = 0 then 12 else if h > 12 then h - 12 else h)"

text \<open>The document after the host has applied an edit; what one run of the retries may leave.\<close>

definition editedDocument :: "WorkspaceEdit \<Rightarrow> TextDocument \<Rightarrow> TextDocument" where
  "editedDocument e d = d\<lparr>textLines := insertAt (textLines d) (editPosition e) (editText e)\<rparr>"

definition editOutcome :: "WorkspaceEdit \<Rightarrow> World \<Rightarrow> 'a OperationResult \<Rightarrow> World \<Rightarrow> bool" where
  "editOutcome e w r w' =
     (if success r then document w' = editedDocument e (document w)
      else document w' = document w)"

text \<open>The edit that \<^verbatim>\<open>insertTextAtEnd\<close> builds for a document with at least one line.\<close>

definition endEdit :: "TextDocument \<Rightarrow> string \<Rightarrow> WorkspaceEdit" where
  "endEdit d text =
     \<lparr>editPosition = (length (textLines d) - 1, length (last (textLines d))),
      editText = prepareTextForInsertion d text\<rparr>"

text \<open>A saved file of the workspace, open in the editor, with the given name, language and lines.\<close>

definition fileDocument :: "string \<Rightarrow> string \<Rightarrow> string list \<Rightarrow> TextDocument" where
  "fileDocument name lang ls =
     \<lparr>fileName = name, languageId = lang, uri = ''file:///'' @ name, scheme = ''file'',
      isUntitled = False, isDirty = False, isClosed = False, textLines = ls\<rparr>"

text \<open>A state in which nothing has happened yet: no active editor, no edit call, no error logged.\<close>

definition worldOf :: "TextDocument \<Rightarrow> World" where
  "worldOf d =
     \<lparr>document = d, activeTextEditor = None,
      fileStat = Inr \<lparr>statType = 1, statPermissions = None\<rparr>,
      statusBarMessage = None, editCalls = 0, errorHistory = [], retryAttempts = [],
      monitor = \<lparr>disposable = None, isActive = False\<rparr>\<rparr>"

text \<open>
  What a run of a handler leaves of a document \<open>d\<close>: a success, with the edit built for the
  formatted timestamp applied once; or a failure, with the document as it was.
\<close>

definition appended :: "TextDocument \<Rightarrow> string \<Rightarrow> ProcessingResult \<Rightarrow> World \<Rightarrow> bool" where
  "appended d text r w' =
     (if success r
      then documentModified r \<and> processingState r = COMPLETED \<and> timestamp r = Some text
           \<and> document w' = editedDocument (endEdit d text) d
      else \<not> documentModified r \<and> processingState r = FAILED \<and> document w' = d)"

text \<open>The instant of the requirements' example, 24 July 2025 at 13:25.\<close>

definition exampleDate :: Date where
  "exampleDate = \<lparr>getFullYear = 2025, getMonth = 6, getDate = 24, getHours = 13, getMinutes = 25\<rparr>"

text \<open>A host that applies every edit it is asked for.\<close>

definition alwaysApplied :: EditScript where
  "alwaysApplied = (\<lambda>k. Applied)"

text \<open>
  The insertion formats as the specification gives them: a line feed, the timestamp and a line
  feed for the text and log types; a line feed, \<^verbatim>\<open>## \<close>, the timestamp and a line feed for
  the markdown type.
\<close>

definition spec_insertionFormat :: "SupportedFileType \<Rightarrow> string \<Rightarrow> string" where
  "spec_insertionFormat ft ts =
     (case ft of
        MARKDOWN \<Rightarrow> [newline] @ ''## '' @ ts @ [newline]
      | _ \<Rightarrow> [newline] @ ts @ [newline])"

text \<open>
  Reading a field of decimal digits back as a number, to say which number each field of a
  timestamp shows.
\<close>

definition digitValue :: "char \<Rightarrow> nat" where
  "digitValue c = of_char c - 48"

definition decimalValue :: "string \<Rightarrow> nat" where
  "decimalValue s = foldl (\<lambda>a c. 10 * a + digitValue c) 0 s"

section \<open>Strings and lines\<close>


lemma dropWhile_ws_append:
  assumes "list_all isWhiteSpace a" "t \<noteq> []" "\<not> isWhiteSpace (hd t)"
  shows "dropWhile isWhiteSpace (a @ t) = t"
proof -
  have "dropWhile isWhiteSpace (a @ t) = dropWhile isWhiteSpace t"
    using assms(1) by (intro dropWhile_append2) (simp add: list_all_iff)
  also have "\<dots> = t"
    using assms(3) by (simp add: dropWhile_eq_self_iff)
  finally show ?thesis .
qed

lemma trim_append:
  assumes "list_all isWhiteSpace a" "list_all isWhiteSpace b"
    and "t \<noteq> []" "\<not> isWhiteSpace (hd t)" "\<not> isWhiteSpace (last t)"
  shows "trim (a @ t @ b) = t"
proof -
  have 1: "dropWhile isWhiteSpace (a @ t @ b) = t @ b"
    using assms by (intro dropWhile_ws_append) simp_all
  have 2: "dropWhile isWhiteSpace (rev b @ rev t) = rev t"
    using assms by (intro dropWhile_ws_append) (simp_all add: hd_rev)
  show ?thesis by (simp add: trim_def 1 2)
qed

lemma trim_decompose:
  "\<exists>a b. s = a @ trim s @ b \<and> list_all isWhiteSpace a \<and> list_all isWhiteSpace b"
proof -
  define u where "u = dropWhile isWhiteSpace s"
  define v where "v = rev u"
  have s: "s = takeWhile isWhiteSpace s @ u" by (simp add: u_def)
  have "rev v = rev (dropWhile isWhiteSpace v) @ rev (takeWhile isWhiteSpace v)"
    by (metis rev_append takeWhile_dropWhile_id)
  moreover have "rev v = u" by (simp add: v_def)
  moreover have "rev (dropWhile isWhiteSpace v) = trim s" by (simp add: trim_def v_def u_def)
  ultimately have u: "u = trim s @ rev (takeWhile isWhiteSpace v)"
    by simp
  have a: "list_all isWhiteSpace (takeWhile isWhiteSpace s)"
    by (simp add: list_all_iff) (meson set_takeWhileD)
  have b: "list_all isWhiteSpace (rev (takeWhile isWhiteSpace v))"
    by (simp add: list_all_iff) (meson set_takeWhileD)
  from s u have "s = takeWhile isWhiteSpace s @ trim s @ rev (takeWhile isWhiteSpace v)"
    by simp
  with a b show ?thesis by blast
qed

section \<open>Timestamps\<close>


lemma isDigit_nth: "k < 10 \<Longrightarrow> isDigit (''0123456789'' ! k)"
  unfolding isDigit_def by (rule nth_mem) simp

lemma isDigit_digitChar: "isDigit (digitChar n)"
  unfolding digitChar_def by (rule isDigit_nth) simp

lemma natToString_1: "n < 10 \<Longrightarrow> natToString n = [digitChar n]"
  by (simp add: natToString.simps)

lemma natToString_2: "10 \<le> n \<Longrightarrow> n < 100 \<Longrightarrow> natToString n = [digitChar (n div 10), digitChar n]"
  by (subst natToString.simps) (simp add: natToString_1)

lemma natToString_3:
  "100 \<le> n \<Longrightarrow> n < 1000 \<Longrightarrow> natToString n = [digitChar (n div 100), digitChar (n div 10), digitChar n]"
  by (subst natToString.simps) (simp add: natToString_2 div_mult2_eq[symmetric])

lemma natToString_4:
  "1000 \<le> n \<Longrightarrow> n < 10000 \<Longrightarrow>
   natToString n = [digitChar (n div 1000), digitChar (n div 100), digitChar (n div 10), digitChar n]"
  by (subst natToString.simps) (simp add: natToString_3 div_mult2_eq[symmetric])

lemma digitChar_0: "digitChar 0 = CHR ''0''"
  by (simp add: digitChar_def)

lemma padStart_2: "n < 100 \<Longrightarrow> padStart (natToString n) 2 (CHR ''0'') = [digitChar (n div 10), digitChar n]"
  by (cases "n < 10") (simp_all add: padStart_def natToString_1 natToString_2 digitChar_0)

lemma formatTimestamp_explicit:
  assumes "validDate d" "1000 \<le> getFullYear d" "getFullYear d \<le> 9999"
  shows "formatTimestamp d =
     [digitChar (nat (getFullYear d) div 1000), digitChar (nat (getFullYear d) div 100),
      digitChar (nat (getFullYear d) div 10), digitChar (nat (getFullYear d)), CHR ''-'',
      digitChar ((getMonth d + 1) div 10), digitChar (getMonth d + 1), CHR ''-'',
      digitChar (getDate d div 10), digitChar (getDate d), CHR '' '',
      digitChar (hours12 (getHours d) div 10), digitChar (hours12 (getHours d)), CHR '':'',
      digitChar (getMinutes d div 10), digitChar (getMinutes d), CHR '' '',
      (if getHours d \<ge> 12 then CHR ''P'' else CHR ''A''), CHR ''M'']"
proof -
  have y: "intToString (getFullYear d) =
     [digitChar (nat (getFullYear d) div 1000), digitChar (nat (getFullYear d) div 100),
      digitChar (nat (getFullYear d) div 10), digitChar (nat (getFullYear d))]"
    using assms(2,3) by (simp add: intToString_def natToString_4)
  have m: "getMonth d + 1 < 100" and dd: "getDate d < 100" and mi: "getMinutes d < 100"
    and h: "hours12 (getHours d) < 100"
    using assms(1) by (auto simp: validDate_def hours12_def)
  show ?thesis
    unfolding formatTimestamp_def Let_def y padStart_2[OF m] padStart_2[OF dd] padStart_2[OF mi]
      hours12_def[symmetric] padStart_2[OF h]
    by simp
qed

lemma set_natToString: "set (natToString n) \<subseteq> set ''0123456789''"
proof (induction n rule: natToString.induct)
  case (1 n)
  have d: "digitChar n \<in> set ''0123456789''"
    using isDigit_digitChar[of n] by (simp only: isDigit_def)
  show ?case
  proof (cases "n < 10")
    case True
    then show ?thesis using d by (simp add: natToString_1)
  next
    case False
    then have "natToString n = natToString (n div 10) @ [digitChar n]"
      by (subst natToString.simps) simp
    then show ?thesis using d 1[OF False] by simp
  qed
qed


lemma less_ten_cases:
  "(k::nat) < 10 \<Longrightarrow>
     k = 0 \<or> k = 1 \<or> k = 2 \<or> k = 3 \<or> k = 4 \<or> k = 5 \<or> k = 6 \<or> k = 7 \<or> k = 8 \<or> k = 9"
  by arith

lemma digitValue_nth: "k < 10 \<Longrightarrow> digitValue (''0123456789'' ! k) = k"
  by (drule less_ten_cases) (elim disjE; simp add: digitValue_def)

lemma digitValue_digitChar: "digitValue (digitChar n) = n mod 10"
  unfolding digitChar_def by (rule digitValue_nth) simp

lemma decimalValue_2: "n < 100 \<Longrightarrow> decimalValue [digitChar (n div 10), digitChar n] = n"
  by (simp add: decimalValue_def digitValue_digitChar)

lemma decimalValue_4:
  assumes "n < 10000"
  shows "decimalValue [digitChar (n div 1000), digitChar (n div 100), digitChar (n div 10), digitChar n] = n"
proof -
  have a: "n div 1000 mod 10 = n div 1000" using assms by simp
  have b: "n div 100 = 10 * (n div 1000) + n div 100 mod 10"
    using div_mult_mod_eq[of "n div 100" 10] by (simp add: div_mult2_eq[symmetric] mult.commute)
  have c: "n div 10 = 10 * (n div 100) + n div 10 mod 10"
    using div_mult_mod_eq[of "n div 10" 10] by (simp add: div_mult2_eq[symmetric] mult.commute)
  have "decimalValue [digitChar (n div 1000), digitChar (n div 100), digitChar (n div 10), digitChar n]
      = 10 * (10 * (10 * (n div 1000) + n div 100 mod 10) + n div 10 mod 10) + n mod 10"
    by (simp add: decimalValue_def digitValue_digitChar a)
  also have "\<dots> = 10 * (10 * (n div 100) + n div 10 mod 10) + n mod 10" using b by simp
  also have "\<dots> = 10 * (n div 10) + n mod 10" using c by simp
  also have "\<dots> = n" by simp
  finally show ?thesis .
qed

lemma formatTimestamp_general:
  assumes "validDate d"
  shows "formatTimestamp d = intToString (getFullYear d) @
     [CHR ''-'', digitChar ((getMonth d + 1) div 10), digitChar (getMonth d + 1), CHR ''-'',
      digitChar (getDate d div 10), digitChar (getDate d), CHR '' '',
      digitChar (hours12 (getHours d) div 10), digitChar (hours12 (getHours d)), CHR '':'',
      digitChar (getMinutes d div 10), digitChar (getMinutes d), CHR '' '',
      (if getHours d < 12 then CHR ''A'' else CHR ''P''), CHR ''M'']"
proof -
  have m: "getMonth d + 1 < 100" and dd: "getDate d < 100" and mi: "getMinutes d < 100"
    and h: "hours12 (getHours d) < 100"
    using assms(1) by (auto simp: validDate_def hours12_def)
  show ?thesis
    unfolding formatTimestamp_def Let_def padStart_2[OF m] padStart_2[OF dd] padStart_2[OF mi]
      hours12_def[symmetric] padStart_2[OF h]
    by simp
qed

lemma intToString_four:
  assumes "1000 \<le> y" "y \<le> 9999"
  shows "intToString y =
     [digitChar (nat y div 1000), digitChar (nat y div 100), digitChar (nat y div 10),
      digitChar (nat y)]"
  using assms by (simp add: intToString_def natToString_4)

lemma intToString_short:
  assumes "0 \<le> y" "y < 1000"
  shows "intToString y =
     (if y < 10 then [digitChar (nat y)]
      else if y < 100 then [digitChar (nat y div 10), digitChar (nat y)]
      else [digitChar (nat y div 100), digitChar (nat y div 10), digitChar (nat y)])"
  using assms by (simp add: intToString_def natToString_1 natToString_2 natToString_3)

section \<open>The edit and its retries\<close>


lemma splitLines_nonempty: "splitLines s \<noteq> []"
  by (cases s) simp_all

lemma joinLines_Cons: "ls \<noteq> [] \<Longrightarrow> joinLines (l # ls) = l @ newline # joinLines ls"
  by (cases ls) simp_all

lemma joinLines_Cons_char: "joinLines ((c # l) # ls) = c # joinLines (l # ls)"
  by (cases ls) simp_all

lemma joinLines_splitLines: "joinLines (splitLines s) = s"
proof (induction s)
  case Nil
  show ?case by simp
next
  case (Cons c cs)
  show ?case
  proof (cases "c = newline")
    case True
    then show ?thesis using Cons by (simp add: joinLines_Cons splitLines_nonempty)
  next
    case False
    have "joinLines ((c # hd (splitLines cs)) # tl (splitLines cs)) = c # joinLines (splitLines cs)"
      by (simp add: joinLines_Cons_char splitLines_nonempty)
    then show ?thesis using False Cons by simp
  qed
qed

lemma joinLines_append:
  "xs \<noteq> [] \<Longrightarrow> ys \<noteq> [] \<Longrightarrow> joinLines (xs @ ys) = joinLines xs @ newline # joinLines ys"
proof (induction xs)
  case Nil
  then show ?case by simp
next
  case (Cons x xs)
  show ?case
  proof (cases "xs = []")
    case True
    then show ?thesis using Cons.prems by (simp add: joinLines_Cons)
  next
    case False
    then show ?thesis using Cons by (simp add: joinLines_Cons)
  qed
qed

lemma insertAt_end:
  assumes "ls \<noteq> []"
  shows "insertAt ls (length ls - Suc 0, length (last ls)) t = butlast ls @ splitLines (last ls @ t)"
proof -
  have n: "ls ! (length ls - Suc 0) = last ls" using assms by (simp add: last_conv_nth)
  have "take (length ls - Suc 0) ls = butlast ls" by (simp add: butlast_conv_take)
  moreover have "drop (Suc (length ls - Suc 0)) ls = []" using assms by simp
  moreover have "length ls - Suc 0 < length ls" using assms by simp
  ultimately show ?thesis by (simp add: insertAt_def n Let_def)
qed

lemma joinLines_insertAt_end:
  assumes "ls \<noteq> []"
  shows "joinLines (insertAt ls (length ls - Suc 0, length (last ls)) t) = joinLines ls @ t"
proof (cases "butlast ls = []")
  case True
  then have "ls = [last ls]" using assms by (metis append_butlast_last_id append_Nil)
  then have "joinLines ls = last ls" by (metis joinLines.simps(2))
  then show ?thesis using True by (simp add: insertAt_end[OF assms] joinLines_splitLines)
next
  case False
  have "joinLines ls = joinLines (butlast ls @ [last ls])" using assms by simp
  also have "\<dots> = joinLines (butlast ls) @ newline # last ls"
    using False by (simp add: joinLines_append)
  finally show ?thesis
    using False by (simp add: insertAt_end[OF assms] joinLines_append splitLines_nonempty joinLines_splitLines)
qed

lemma lineAt_last:
  "textLines d \<noteq> [] \<Longrightarrow> lineAt d (lineCount d - 1) = Some (last (textLines d))"
  by (simp add: lineAt_def lineCount_def last_conv_nth nat_diff_distrib')

lemma lineAt_empty: "textLines d = [] \<Longrightarrow> lineAt d (lineCount d - 1) = None"
  by (simp add: lineAt_def lineCount_def)

lemma getText_endEdit:
  "textLines d \<noteq> [] \<Longrightarrow> getText (editedDocument (endEdit d t) d) = getText d @ prepareTextForInsertion d t"
  by (simp add: getText_def editedDocument_def endEdit_def joinLines_insertAt_end)

lemma applyEdit_outcome:
  "applyEdit host e w = (x, w1) \<Longrightarrow>
     (if x = Inr True then document w1 = editedDocument e (document w) else document w1 = document w)"
  by (auto simp: applyEdit_def Let_def editedDocument_def split: EditOutcome.splits)

lemma applyEditLoop_outcome:
  "applyEditLoop host e n w = (r, w') \<Longrightarrow> editOutcome e w r w'"
proof (induction host e n w rule: applyEditLoop.induct)
  case (1 host edit attempt w)
  obtain x w1 where a: "applyEdit host edit w = (x, w1)" by (cases "applyEdit host edit w")
  note o = applyEdit_outcome[OF a]
  show ?case
  proof (cases "attempt \<le> editor_maxRetries")
    case False
    then show ?thesis using "1.prems"
      by (subst (asm) applyEditLoop.simps) (auto simp: editOutcome_def failed_def)
  next
    case le: True
    show ?thesis
    proof (cases x)
      case (Inl ex)
      show ?thesis
      proof (cases "attempt < editor_maxRetries")
        case True
        have "applyEditLoop host edit (attempt + 1) w1 = (r, w')"
          using "1.prems" le a Inl True by (subst (asm) applyEditLoop.simps) simp
        from "1.IH"(1)[OF le a[symmetric] Inl True this] o Inl
        show ?thesis by (simp add: editOutcome_def)
      next
        case False
        then show ?thesis using "1.prems" le a Inl o
          by (subst (asm) applyEditLoop.simps) (auto simp: editOutcome_def failed_def)
      qed
    next
      case (Inr ok)
      show ?thesis
      proof (cases ok)
        case True
        then show ?thesis using "1.prems" le a Inr o
          by (subst (asm) applyEditLoop.simps) (auto simp: editOutcome_def)
      next
        case nok: False
        show ?thesis
        proof (cases "attempt < editor_maxRetries")
          case True
          have "applyEditLoop host edit (attempt + 1) w1 = (r, w')"
            using "1.prems" le a Inr nok True by (subst (asm) applyEditLoop.simps) simp
          from "1.IH"(2)[OF le a[symmetric] Inr nok True this] o Inr nok
          show ?thesis by (simp add: editOutcome_def)
        next
          case False
          then show ?thesis using "1.prems" le a Inr nok o
            by (subst (asm) applyEditLoop.simps) (auto simp: editOutcome_def failed_def)
        qed
      qed
    qed
  qed
qed


lemma recoveryLoop_step:
  assumes "n < recovery_maxRetries" "\<not> isClosed (document w)"
    and "f (w\<lparr>retryAttempts := AList.update key (Suc n) (retryAttempts w)\<rparr>) = (x, w2)"
  shows "recoveryLoop f key operation n w =
     (case x of
        Inr result \<Rightarrow>
          if success result then (result, w2\<lparr>retryAttempts := AList.delete key (retryAttempts w2)\<rparr>)
          else if Suc n \<ge> recovery_maxRetries then
            (failed (''Maximum retry attempts ('' @ natToString recovery_maxRetries
                       @ '') exceeded for '' @ operation)
               (ErrorCode_value DOCUMENT_MODIFICATION_FAILED),
             w2\<lparr>retryAttempts := AList.delete key (retryAttempts w2)\<rparr>)
          else recoveryLoop f key operation (Suc n) w2
      | Inl ex \<Rightarrow>
          if Suc n \<ge> recovery_maxRetries then
            (failed (messageOr ex ''Recovery attempt failed'')
               (ErrorCode_value DOCUMENT_MODIFICATION_FAILED),
             w2\<lparr>retryAttempts := AList.delete key (retryAttempts w2)\<rparr>)
          else recoveryLoop f key operation (Suc n) w2)"
  using assms by (subst recoveryLoop.simps) (simp add: Let_def split: sum.splits)

lemma recoveryLoop_stop:
  assumes "\<not> (n < recovery_maxRetries \<and> \<not> isClosed (document w))"
  shows "\<not> success (fst (recoveryLoop f key operation n w))
     \<and> snd (recoveryLoop f key operation n w) = w\<lparr>retryAttempts := AList.delete key (retryAttempts w)\<rparr>"
  using assms by (subst (1 2) recoveryLoop.simps) (auto simp: failed_def)

lemma recoveryLoop_outcome:
  "\<forall>v x v'. f v = (x, v') \<longrightarrow>
       (case x of Inr r \<Rightarrow> editOutcome e v r v' | Inl ex \<Rightarrow> document v' = document v) \<Longrightarrow>
   recoveryLoop f key operation n w = (r, w') \<Longrightarrow> editOutcome e w r w'"
proof (induction f key operation n w rule: recoveryLoop.induct)
  case (1 retryFunction recoveryKey operation currentAttempts w)
  define w1 where "w1 = w\<lparr>retryAttempts := AList.update recoveryKey (Suc currentAttempts) (retryAttempts w)\<rparr>"
  have w1_alt: "w1 = w\<lparr>retryAttempts := AList.update recoveryKey (currentAttempts + 1) (retryAttempts w)\<rparr>"
    by (simp add: w1_def)
  obtain x w2 where a: "retryFunction w1 = (x, w2)" by (cases "retryFunction w1")
  have d1: "document w1 = document w" by (simp add: w1_def)
  show ?case
  proof (cases "currentAttempts < recovery_maxRetries \<and> \<not> isClosed (document w)")
    case False
    from recoveryLoop_stop[OF False, of retryFunction recoveryKey operation] "1.prems"(2)
    show ?thesis by (simp add: editOutcome_def)
  next
    case True
    then have lt: "currentAttempts < recovery_maxRetries" and op: "\<not> isClosed (document w)" by auto
    note step = recoveryLoop_step[where f=retryFunction and key=recoveryKey and n=currentAttempts
      and w=w and operation=operation, OF lt op a[unfolded w1_def]]
    show ?thesis
    proof (cases x)
      case (Inl ex)
      from "1.prems"(1)[rule_format, OF a] Inl d1 have d2: "document w2 = document w" by simp
      show ?thesis
      proof (cases "recovery_maxRetries \<le> Suc currentAttempts")
        case True
        then show ?thesis using "1.prems"(2) step Inl d2
          by (auto simp: editOutcome_def failed_def)
      next
        case False
        have "recoveryLoop retryFunction recoveryKey operation (currentAttempts + 1) w2 = (r, w')"
          using "1.prems"(2) step Inl False by simp
        moreover have "\<not> recovery_maxRetries \<le> currentAttempts + 1" using False by simp
        ultimately show ?thesis
          using "1.IH"(1)[OF lt op refl w1_alt a[symmetric] Inl _ "1.prems"(1)] d2
          by (simp add: editOutcome_def)
      qed
    next
      case (Inr res)
      from "1.prems"(1)[rule_format, OF a] Inr have o: "editOutcome e w1 res w2" by simp
      show ?thesis
      proof (cases "success res")
        case True
        then show ?thesis using "1.prems"(2) step Inr o d1
          by (auto simp: editOutcome_def)
      next
        case ns: False
        with o d1 have d2: "document w2 = document w" by (simp add: editOutcome_def)
        show ?thesis
        proof (cases "recovery_maxRetries \<le> Suc currentAttempts")
          case True
          then show ?thesis using "1.prems"(2) step Inr ns d2
            by (auto simp: editOutcome_def failed_def)
        next
          case False
          have "recoveryLoop retryFunction recoveryKey operation (currentAttempts + 1) w2 = (r, w')"
            using "1.prems"(2) step Inr ns False by simp
          moreover have "\<not> recovery_maxRetries \<le> currentAttempts + 1" using False by simp
          ultimately show ?thesis
            using "1.IH"(2)[OF lt op refl w1_alt a[symmetric] Inr ns _ "1.prems"(1)] d2
            by (simp add: editOutcome_def)
        qed
      qed
    qed
  qed
qed

lemma isLogFile_iff: "isLogFile d \<longleftrightarrow> textLines d \<noteq> [] \<and> trim (hd (textLines d)) = ''.LOG''"
  by (cases "textLines d") (simp_all add: isLogFile_def lineCount_def lineAt_def LOG_PREFIX_def)

lemma trim_marker_iff:
  "trim s = ''.LOG'' \<longleftrightarrow>
     (\<exists>a b. s = a @ ''.LOG'' @ b \<and> list_all isWhiteSpace a \<and> list_all isWhiteSpace b)"
proof
  assume "trim s = ''.LOG''"
  with trim_decompose[of s] show "\<exists>a b. s = a @ ''.LOG'' @ b \<and> list_all isWhiteSpace a \<and> list_all isWhiteSpace b"
    by metis
next
  assume "\<exists>a b. s = a @ ''.LOG'' @ b \<and> list_all isWhiteSpace a \<and> list_all isWhiteSpace b"
  then obtain a b where s: "s = a @ ''.LOG'' @ b" and a: "list_all isWhiteSpace a" and b: "list_all isWhiteSpace b"
    by blast
  show "trim s = ''.LOG''"
    unfolding s by (rule trim_append[OF a b]) (simp_all add: isWhiteSpace_def)
qed

lemma insertTextAtEnd_not_mutable:
  "\<not> canModifyDocument (document w) \<Longrightarrow> \<not> success (fst (insertTextAtEnd host text w))"
  by (simp add: insertTextAtEnd_def Let_def failed_def split: prod.splits)

section \<open>One run of a handler\<close>

lemma logError_document [simp]: "document (logError msg c w) = document w"
  by (simp add: logError_def)

lemma applyEditLoop_first:
  assumes "host (editCalls w) = Applied" "n \<le> editor_maxRetries"
  shows "applyEditLoop host e n w =
     (\<lparr>success = True, error = None, data = Some True, errorCode = None\<rparr>,
      w\<lparr>editCalls := Suc (editCalls w), document := editedDocument e (document w)\<rparr>)"
  using assms
  by (subst applyEditLoop.simps) (simp add: applyEdit_def editedDocument_def Let_def)

lemma applyEditWithRetryAndRecovery_outcome:
  assumes "applyEditWithRetryAndRecovery host e w = (r, w')"
  shows "editOutcome e w r w'"
proof -
  define f where "f = (\<lambda>v. case applyEditWithRetry host e v of (r, v1) \<Rightarrow> (Inr r :: Exn + bool OperationResult, v1))"
  have inv: "\<forall>v x v'. f v = (x, v') \<longrightarrow>
       (case x of Inr r \<Rightarrow> editOutcome e v r v' | Inl ex \<Rightarrow> document v' = document v)"
    by (auto simp: f_def applyEditWithRetry_def split: prod.splits dest: applyEditLoop_outcome)
  obtain r1 w1 where a: "applyEditWithRetry host e w = (r1, w1)"
    by (cases "applyEditWithRetry host e w")
  then have o1: "editOutcome e w r1 w1"
    by (simp add: applyEditWithRetry_def applyEditLoop_outcome)
  show ?thesis
  proof (cases "success r1")
    case True
    then show ?thesis using assms a o1
      by (simp add: applyEditWithRetryAndRecovery_def Let_def)
  next
    case False
    with o1 have d1: "document w1 = document w" by (simp add: editOutcome_def)
    define key where "key = uri (document w1) @ ''-'' @ ''applyEdit''"
    define n where "n = (case map_of (retryAttempts w1) key of None \<Rightarrow> 0 | Some k \<Rightarrow> k)"
    define w2 where "w2 = logDocumentModificationError (fileName (document w1)) ''applyEdit'' w1"
    have d2: "document w2 = document w"
      by (simp add: w2_def logDocumentModificationError_def d1)
    have "recoveryLoop f key ''applyEdit'' n w2 = (r, w')"
      using assms a False
      by (simp add: applyEditWithRetryAndRecovery_def recoverFromDocumentModificationFailure_def
            Let_def f_def key_def n_def w2_def)
    from recoveryLoop_outcome[OF inv this] d2 show ?thesis
      by (simp add: editOutcome_def)
  qed
qed

lemma insertTextAtEnd_eq:
  assumes "canModifyDocument (document w)" "textLines (document w) \<noteq> []"
  shows "insertTextAtEnd host text w =
           applyEditWithRetryAndRecovery host (endEdit (document w) text) w"
proof -
  have "nat (lineCount (document w) - 1) = length (textLines (document w)) - 1"
    by (simp add: lineCount_def nat_diff_distrib')
  then show ?thesis
    using assms by (simp add: insertTextAtEnd_def Let_def lineAt_last endEdit_def)
qed

lemma insertTextAtEnd_first:
  assumes "canModifyDocument (document w)" "textLines (document w) \<noteq> []"
    and "host (editCalls w) = Applied"
  shows "insertTextAtEnd host text w =
     (\<lparr>success = True, error = None, data = Some True, errorCode = None\<rparr>,
      w\<lparr>editCalls := Suc (editCalls w),
        document := editedDocument (endEdit (document w) text) (document w)\<rparr>)"
  unfolding insertTextAtEnd_eq[OF assms(1,2)]
  by (simp add: applyEditWithRetryAndRecovery_def applyEditWithRetry_def
        applyEditLoop_first[where host=host and w=w, OF assms(3)] Let_def)

lemma positionCursorAtEnd_document [simp]:
  "document (snd (positionCursorAtEnd w)) = document w"
  by (simp add: positionCursorAtEnd_def Let_def split: option.splits)

lemma gracefulTimestampFailure_facts:
  "document (snd (gracefulTimestampFailure ts m w)) = document w
   \<and> \<not> success (fst (gracefulTimestampFailure ts m w))
   \<and> \<not> documentModified (fst (gracefulTimestampFailure ts m w))
   \<and> processingState (fst (gracefulTimestampFailure ts m w)) = FAILED"
  by (simp add: gracefulTimestampFailure_def showGracefulFailureNotification_def Let_def)

lemma processDocument_outcome:
  assumes "canModifyDocument (document w)" "textLines (document w) \<noteq> []"
    and "processDocument handler host ts w = (r, w')"
  shows "appended (document w) (handler_formatTimestamp handler ts) r w'"
proof -
  define fmt where "fmt = handler_formatTimestamp handler ts"
  obtain ir w1 where i: "insertTextAtEnd host fmt w = (ir, w1)"
    by (cases "insertTextAtEnd host fmt w")
  then have "applyEditWithRetryAndRecovery host (endEdit (document w) fmt) w = (ir, w1)"
    by (simp add: insertTextAtEnd_eq[OF assms(1,2)])
  then have o: "editOutcome (endEdit (document w) fmt) w ir w1"
    by (rule applyEditWithRetryAndRecovery_outcome)
  show ?thesis
  proof (cases "success ir")
    case True
    obtain cr w2 where c: "positionCursorAtEnd w1 = (cr, w2)" by (cases "positionCursorAtEnd w1")
    then have "document w2 = document w1" using positionCursorAtEnd_document[of w1] by simp
    then show ?thesis using assms(1,3) i c True o
      by (auto simp: processDocument_def Let_def fmt_def[symmetric] appended_def editOutcome_def)
  next
    case False
    define msg where "msg = orElse (error ir) ''Failed to insert timestamp''"
    define w2 where "w2 = logError msg None w1"
    have "processDocument handler host ts w = gracefulTimestampFailure fmt msg w2"
      using assms(1) i False
      by (simp add: processDocument_def Let_def fmt_def[symmetric] msg_def w2_def)
    with assms(3) have g: "gracefulTimestampFailure fmt msg w2 = (r, w')" by simp
    have "document w2 = document w"
      using o False by (simp add: w2_def editOutcome_def)
    with gracefulTimestampFailure_facts[of fmt msg w2] g show ?thesis
      by (simp add: appended_def)
  qed
qed

lemma processDocument_first:
  assumes "canModifyDocument (document w)" "textLines (document w) \<noteq> []"
    and "host (editCalls w) = Applied"
  shows "success (fst (processDocument handler host ts w))"
  using assms(1)
  by (simp add: processDocument_def Let_def insertTextAtEnd_first[where host=host and w=w, OF assms] split: prod.splits)

lemma formatTimestamp_nonempty: "formatTimestamp now \<noteq> []"
  by (simp add: formatTimestamp_def Let_def)

section \<open>One open event\<close>

lemma shouldProcessDocument_iff:
  "shouldProcessDocument d \<longleftrightarrow> isLogFile d \<and> getFileType d \<noteq> None"
  by (simp add: shouldProcessDocument_def isLogFile_def Let_def split: option.splits)

lemma getFileType_extension:
  assumes "extensionMatch (fileName d) = Some m" "toLowerCase m \<in> SUPPORTED_EXTENSIONS"
  shows "\<exists>ft. getFileType d = Some ft \<and> SupportedFileType_value ft = toLowerCase m"
  using assms by (auto simp: getFileType_def Let_def SUPPORTED_EXTENSIONS_def)

lemma activate_formats:
  "activate_fileHandlers ft = Some h \<Longrightarrow> handler_formatTimestamp h ts = spec_insertionFormat ft ts"
  by (cases ft) (auto simp: activate_fileHandlers_def spec_insertionFormat_def)

lemma activate_total: "\<exists>h. activate_fileHandlers ft = Some h"
  by (cases ft) (simp_all add: activate_fileHandlers_def)

lemma onDocumentOpened_processes:
  assumes "getFileType (document w) = Some ft" "isLogFile (document w)" "fileHandlers ft = Some h"
  shows "onDocumentOpened fileHandlers now host w =
     (case processDocument h host (generateTimestamp now) w of
        (r, w1) \<Rightarrow> if success r then (r, w1)
                   else (r, logError (orElse (error r) ''Handler processing failed'') None w1))"
  using assms formatTimestamp_nonempty[of now]
  by (simp add: onDocumentOpened_def analyzeContent_def shouldProcessDocument_iff
        getCurrentTimestamp_def generateTimestamp_def Let_def)

lemma onDocumentOpened_skips:
  assumes "getFileType (document w) = Some ft" "\<not> isLogFile (document w)"
  shows "onDocumentOpened fileHandlers now host w =
     (\<lparr>success = True, error = None, documentModified = False,
       processingState = SKIPPED, timestamp = None\<rparr>, w)"
  using assms
  by (simp add: onDocumentOpened_def analyzeContent_def shouldProcessDocument_iff Let_def)

lemma isLogFile_nonempty: "isLogFile d \<Longrightarrow> textLines d \<noteq> []"
  by (simp add: isLogFile_iff)

lemma lineCount_zero: "lineCount d = 0 \<longleftrightarrow> textLines d = []"
  by (simp add: lineCount_def)

lemma prepare_eq:
  "textLines d \<noteq> [] \<Longrightarrow>
     prepareTextForInsertion d t =
       (if last (textLines d) \<noteq> [] then [newline] else []) @ t
         @ (if endsWith t [newline] then [] else [newline])"
  by (simp add: prepareTextForInsertion_def lineCount_zero lineAt_last Let_def)

lemma prepare_formatted:
  assumes "textLines d \<noteq> []"
  shows "prepareTextForInsertion d (spec_insertionFormat ft ts) =
           (if last (textLines d) = [] then [] else [newline]) @ spec_insertionFormat ft ts"
  using assms
  by (cases ft) (simp_all add: prepare_eq endsWith_def spec_insertionFormat_def suffix_def)

lemma splitLines_plain: "newline \<notin> set a \<Longrightarrow> splitLines a = [a]"
  by (induction a) auto

lemma splitLines_break: "newline \<notin> set a \<Longrightarrow> splitLines (a @ newline # b) = a # splitLines b"
  by (induction a) auto

lemma textLines_endEdit:
  "textLines d \<noteq> [] \<Longrightarrow>
     textLines (editedDocument (endEdit d t) d) =
       butlast (textLines d) @ splitLines (last (textLines d) @ prepareTextForInsertion d t)"
  by (simp add: editedDocument_def endEdit_def insertAt_end)

lemma newline_natToString: "CHR 0x0A \<notin> set (natToString n)"
  using set_natToString[of n] by auto

lemma newline_padStart:
  "CHR 0x0A \<notin> set s \<Longrightarrow> CHR 0x0A \<notin> set (padStart s n (CHR ''0''))"
  by (auto simp: padStart_def)

lemma newline_intToString: "CHR 0x0A \<notin> set (intToString i)"
  by (simp add: intToString_def newline_natToString)

lemma newline_formatTimestamp: "newline \<notin> set (formatTimestamp now)"
  unfolding newline_def
  by (simp add: formatTimestamp_def Let_def newline_intToString newline_padStart newline_natToString)

lemma onDocumentOpened_applied:
  assumes "getFileType (document w) = Some ft" "isLogFile (document w)"
    and "fileHandlers ft = Some h" "canModifyDocument (document w)"
    and "host (editCalls w) = Applied"
  shows "success (fst (onDocumentOpened fileHandlers now host w))
     \<and> document (snd (onDocumentOpened fileHandlers now host w)) =
         editedDocument (endEdit (document w) (handler_formatTimestamp h (generateTimestamp now)))
           (document w)"
proof -
  note ne = isLogFile_nonempty[OF assms(2)]
  define ts where "ts = generateTimestamp now"
  obtain r w1 where p: "processDocument h host ts w = (r, w1)"
    by (cases "processDocument h host ts w")
  have s: "success r"
    using processDocument_first[where host=host and w=w, OF assms(4) ne assms(5), of h ts] p by simp
  have "appended (document w) (handler_formatTimestamp h ts) r w1"
    by (rule processDocument_outcome[OF assms(4) ne p])
  with s have "document w1 = editedDocument (endEdit (document w) (handler_formatTimestamp h ts)) (document w)"
    by (simp add: appended_def)
  then show ?thesis
    unfolding onDocumentOpened_processes[where fileHandlers=fileHandlers and w=w, OF assms(1,2,3)]
      ts_def[symmetric] p
    using s by simp
qed

lemma onDocumentOpened_not_mutable:
  assumes "getFileType (document w) = Some ft" "isLogFile (document w)"
    and "fileHandlers ft = Some h" "\<not> canModifyDocument (document w)"
  shows "\<not> success (fst (onDocumentOpened fileHandlers now host w))
     \<and> document (snd (onDocumentOpened fileHandlers now host w)) = document w"
  unfolding onDocumentOpened_processes[where fileHandlers=fileHandlers and w=w, OF assms(1,2,3)]
  using assms(4) by (simp add: processDocument_def)

lemma handleDocumentOpened_document:
  "document (handleDocumentOpened fileHandlers now host w)
     = document (snd (onDocumentOpened fileHandlers now host w))"
proof (cases "getFileType (document w)")
  case None
  then show ?thesis
    by (simp add: handleDocumentOpened_def onDocumentOpened_def analyzeContent_def Let_def)
next
  case (Some ft)
  then show ?thesis
    by (simp add: handleDocumentOpened_def clearRetryHistory_def split: prod.splits)
qed

section \<open>Evaluation of the examples\<close>

lemmas eval_type = getFileType_def extensionMatch_def toLowerCase_def toLowerChar_def
  upperCaseLetters_def lowerCaseLetters_def
  SUPPORTED_EXTENSIONS_def languageType_def fileDocument_def worldOf_def

lemmas eval_time = exampleDate_def generateTimestamp_def formatTimestamp_def intToString_def
  padStart_def natToString.simps digitChar_def

lemmas eval_doc = fileDocument_def worldOf_def isLogFile_iff trim_def isWhiteSpace_def
  canModifyDocument_def alwaysApplied_def


text \<open>White space around the marker does not prevent the match.\<close>

lemma marker_between_spaces:
  "isLogFile (d\<lparr>textLines := '' .LOG'' # rest\<rparr>) \<and> isLogFile (d\<lparr>textLines := ''.LOG '' # rest\<rparr>)"
  by (simp add: isLogFile_iff trim_def isWhiteSpace_def)

section \<open>Properties of the specification\<close>

text \<open>
  C1 (as the code has it): for every mutable document with a supported extension whose trimmed first
  line is the marker, one run on the open event either succeeds and appends exactly one
  insertion at the end of the text, the insertion format of the detected type after one more
  line feed when the last line is not empty, with all earlier text unchanged; or it fails
  and leaves the document as it was. It succeeds whenever the host applies the first edit
  it is asked for.
\<close>

theorem qualifying_document_appended:
  assumes "extensionMatch (fileName (document w)) = Some m"
    and "toLowerCase m \<in> SUPPORTED_EXTENSIONS"
    and "isLogFile (document w)"
    and "canModifyDocument (document w)"
  shows "case onDocumentOpened activate_fileHandlers now host w of
     (r, w') \<Rightarrow>
       (\<exists>ft. getFileType (document w) = Some ft \<and> SupportedFileType_value ft = toLowerCase m
          \<and> (if success r
              then documentModified r \<and> processingState r = COMPLETED
                 \<and> timestamp r = Some (spec_insertionFormat ft (generateTimestamp now))
                 \<and> getText (document w') =
                     getText (document w)
                       @ (if last (textLines (document w)) = [] then [] else [newline])
                       @ spec_insertionFormat ft (generateTimestamp now)
              else \<not> documentModified r \<and> processingState r = FAILED
                 \<and> document w' = document w)
          \<and> (host (editCalls w) = Applied \<longrightarrow> success r)
          \<and> document (handleDocumentOpened activate_fileHandlers now host w) = document w')"
proof -
  obtain ft where ft: "getFileType (document w) = Some ft"
    "SupportedFileType_value ft = toLowerCase m"
    using getFileType_extension[OF assms(1,2)] by blast
  obtain h where h: "activate_fileHandlers ft = Some h" using activate_total by blast
  note ne = isLogFile_nonempty[OF assms(3)]
  define ts where "ts = generateTimestamp now"
  obtain r w1 where p: "processDocument h host ts w = (r, w1)"
    by (cases "processDocument h host ts w")
  have a: "appended (document w) (spec_insertionFormat ft ts) r w1"
    using processDocument_outcome[OF assms(4) ne p] by (simp add: activate_formats[OF h])
  have f: "host (editCalls w) = Applied \<longrightarrow> success r"
    using processDocument_first[where host=host and w=w, OF assms(4) ne, of h ts] p by simp
  have t: "getText (editedDocument (endEdit (document w) (spec_insertionFormat ft ts)) (document w))
        = getText (document w) @ (if last (textLines (document w)) = [] then [] else [newline])
            @ spec_insertionFormat ft ts"
    by (simp add: getText_endEdit[OF ne] prepare_formatted[OF ne])
  show ?thesis
    unfolding handleDocumentOpened_document
      onDocumentOpened_processes[where fileHandlers=activate_fileHandlers and w=w, OF ft(1) assms(3) h]
      ts_def[symmetric] p
    using a f t ft by (auto simp: appended_def)
qed

theorem qualifying_document_appended_witness:
  "extensionMatch (fileName (document (worldOf (fileDocument ''notes.txt'' ''plaintext'' [''.LOG''])))) = Some ''txt''
   \<and> toLowerCase ''txt'' \<in> SUPPORTED_EXTENSIONS
   \<and> isLogFile (document (worldOf (fileDocument ''notes.txt'' ''plaintext'' [''.LOG''])))
   \<and> canModifyDocument (document (worldOf (fileDocument ''notes.txt'' ''plaintext'' [''.LOG''])))
   \<and> success (fst (onDocumentOpened activate_fileHandlers exampleDate alwaysApplied
         (worldOf (fileDocument ''notes.txt'' ''plaintext'' [''.LOG'']))))
   \<and> getText (document (snd (onDocumentOpened activate_fileHandlers exampleDate alwaysApplied
         (worldOf (fileDocument ''notes.txt'' ''plaintext'' [''.LOG''])))))
       = ''.LOG'' @ [newline, newline] @ ''2025-07-24 01:25 PM'' @ [newline]"
proof -
  define w0 where "w0 = worldOf (fileDocument ''notes.txt'' ''plaintext'' [''.LOG''])"
  have h: "extensionMatch (fileName (document w0)) = Some ''txt''"
    "toLowerCase ''txt'' \<in> SUPPORTED_EXTENSIONS"
    "isLogFile (document w0)" "canModifyDocument (document w0)"
    by (simp_all add: w0_def eval_type eval_doc)
  have a: "alwaysApplied (editCalls w0) = Applied" by (simp add: alwaysApplied_def)
  obtain r w' where run: "onDocumentOpened activate_fileHandlers exampleDate alwaysApplied w0 = (r, w')"
    by (cases "onDocumentOpened activate_fileHandlers exampleDate alwaysApplied w0")
  from qualifying_document_appended[OF h, of exampleDate alwaysApplied] run a
  obtain ft where ft: "SupportedFileType_value ft = toLowerCase ''txt''" and s: "success r"
    and t: "getText (document w') = getText (document w0)
              @ (if last (textLines (document w0)) = [] then [] else [newline])
              @ spec_insertionFormat ft (generateTimestamp exampleDate)"
    by auto
  from ft have "ft = TEXT"
    by (cases ft) (simp_all add: toLowerCase_def toLowerChar_def upperCaseLetters_def lowerCaseLetters_def)
  with t have "getText (document w') = ''.LOG'' @ [newline, newline] @ ''2025-07-24 01:25 PM'' @ [newline]"
    by (simp add: w0_def worldOf_def fileDocument_def getText_def spec_insertionFormat_def eval_time)
  with h s run show ?thesis unfolding w0_def by simp
qed

text \<open>
  A document of the \<^verbatim>\<open>git\<close> scheme with the extension \<^verbatim>\<open>txt\<close> and the marker: nothing is
  appended, though the host would apply every edit.
\<close>

theorem qualifying_document_appended_counterexample:
  "extensionMatch (fileName ((fileDocument ''notes.txt'' ''plaintext'' [''.LOG''])\<lparr>scheme := ''git''\<rparr>)) = Some ''txt''
   \<and> isLogFile ((fileDocument ''notes.txt'' ''plaintext'' [''.LOG''])\<lparr>scheme := ''git''\<rparr>)
   \<and> \<not> success (fst (onDocumentOpened activate_fileHandlers exampleDate alwaysApplied
         (worldOf ((fileDocument ''notes.txt'' ''plaintext'' [''.LOG''])\<lparr>scheme := ''git''\<rparr>))))
   \<and> getText (document (snd (onDocumentOpened activate_fileHandlers exampleDate alwaysApplied
         (worldOf ((fileDocument ''notes.txt'' ''plaintext'' [''.LOG''])\<lparr>scheme := ''git''\<rparr>)))))
       = ''.LOG''"
proof -
  define w0 where "w0 = worldOf ((fileDocument ''notes.txt'' ''plaintext'' [''.LOG''])\<lparr>scheme := ''git''\<rparr>)"
  have h: "getFileType (document w0) = Some TEXT" "isLogFile (document w0)"
    "activate_fileHandlers TEXT = Some TextFileHandler" "\<not> canModifyDocument (document w0)"
    by (simp_all add: w0_def eval_type eval_doc activate_fileHandlers_def)
  have "extensionMatch (fileName (document w0)) = Some ''txt''"
    by (simp add: w0_def eval_type)
  moreover have "getText (document w0) = ''.LOG''"
    by (simp add: w0_def getText_def worldOf_def fileDocument_def)
  ultimately show ?thesis
    using onDocumentOpened_not_mutable[where fileHandlers=activate_fileHandlers and w=w0, OF h,
        of exampleDate alwaysApplied] h(2)
    unfolding w0_def by (simp add: worldOf_def)
qed

text \<open>
  C2 (as the code has it): for every document whose marker condition does not hold, the run leaves
  the text unchanged and requests no edit, whatever the extension. The result is the
  skipped one (\<^verbatim>\<open>success = true\<close>, \<^verbatim>\<open>documentModified = false\<close>) when the type is
  supported, and the failed one of an unsupported type when it is not.
\<close>

theorem unmarked_document_untouched:
  assumes "\<not> isLogFile (document w)"
  shows "document (snd (onDocumentOpened fileHandlers now host w)) = document w
     \<and> editCalls (snd (onDocumentOpened fileHandlers now host w)) = editCalls w
     \<and> (getFileType (document w) \<noteq> None \<longrightarrow>
          onDocumentOpened fileHandlers now host w =
            (\<lparr>success = True, error = None, documentModified = False,
              processingState = SKIPPED, timestamp = None\<rparr>, w))
     \<and> (getFileType (document w) = None \<longrightarrow>
          fst (onDocumentOpened fileHandlers now host w) =
            \<lparr>success = False, error = Some ''Unsupported file type'', documentModified = False,
             processingState = FAILED, timestamp = None\<rparr>)
     \<and> document (handleDocumentOpened fileHandlers now host w) = document w
     \<and> editCalls (handleDocumentOpened fileHandlers now host w) = editCalls w"
proof (cases "getFileType (document w)")
  case None
  then show ?thesis
    by (simp add: onDocumentOpened_def handleDocumentOpened_def analyzeContent_def orElse_def
          Let_def logError_def)
next
  case (Some ft)
  then show ?thesis
    by (simp add: onDocumentOpened_skips[OF Some assms] handleDocumentOpened_def
          clearRetryHistory_def)
qed

theorem unmarked_document_untouched_witness:
  "\<not> isLogFile (document (worldOf (fileDocument ''notes.txt'' ''plaintext'' [''no marker here''])))
   \<and> getFileType (document (worldOf (fileDocument ''notes.txt'' ''plaintext'' [''no marker here''])))
       = Some TEXT
   \<and> onDocumentOpened activate_fileHandlers exampleDate alwaysApplied
         (worldOf (fileDocument ''notes.txt'' ''plaintext'' [''no marker here'']))
       = (\<lparr>success = True, error = None, documentModified = False,
            processingState = SKIPPED, timestamp = None\<rparr>,
          worldOf (fileDocument ''notes.txt'' ''plaintext'' [''no marker here'']))
   \<and> \<not> isLogFile (document (worldOf (fileDocument ''script.py'' ''python'' [''no marker here''])))
   \<and> getFileType (document (worldOf (fileDocument ''script.py'' ''python'' [''no marker here''])))
       = None
   \<and> document (snd (onDocumentOpened activate_fileHandlers exampleDate alwaysApplied
         (worldOf (fileDocument ''script.py'' ''python'' [''no marker here'']))))
       = fileDocument ''script.py'' ''python'' [''no marker here'']"
proof -
  define w0 where "w0 = worldOf (fileDocument ''notes.txt'' ''plaintext'' [''no marker here''])"
  define w1 where "w1 = worldOf (fileDocument ''script.py'' ''python'' [''no marker here''])"
  have h0: "\<not> isLogFile (document w0)" and t0: "getFileType (document w0) = Some TEXT"
    by (simp_all add: w0_def eval_type eval_doc)
  have h1: "\<not> isLogFile (document w1)" and t1: "getFileType (document w1) = None"
    by (simp_all add: w1_def eval_type eval_doc)
  have d1: "document w1 = fileDocument ''script.py'' ''python'' [''no marker here'']"
    by (simp add: w1_def worldOf_def)
  from unmarked_document_untouched[OF h0, of activate_fileHandlers exampleDate alwaysApplied]
    unmarked_document_untouched[OF h1, of activate_fileHandlers exampleDate alwaysApplied]
    h0 t0 h1 t1 d1
  show ?thesis unfolding w0_def w1_def by simp
qed

text \<open>
  A Python file without the marker: the result is a failure, not a skip.
\<close>

theorem unmarked_document_untouched_counterexample:
  "\<not> isLogFile (fileDocument ''script.py'' ''python'' [''no marker here''])
   \<and> fst (onDocumentOpened activate_fileHandlers exampleDate alwaysApplied
         (worldOf (fileDocument ''script.py'' ''python'' [''no marker here''])))
       = \<lparr>success = False, error = Some ''Unsupported file type'', documentModified = False,
          processingState = FAILED, timestamp = None\<rparr>"
  by (simp add: onDocumentOpened_def analyzeContent_def orElse_def Let_def eval_type eval_doc)

text \<open>
  C3: marker detection. The marker condition holds exactly when the document has a first
  line that is \<^verbatim>\<open>.LOG\<close> between white space only; the handlers' own test agrees with it;
  the empty document, \<^verbatim>\<open>.log\<close>, \<^verbatim>\<open>prefix .LOG\<close>, \<^verbatim>\<open>.LOG extra\<close> and \<^verbatim>\<open>.LOG\<close> on a later line
  do not match.
\<close>

theorem marker_detection:
  "(isLogFile d \<longleftrightarrow> textLines d \<noteq> [] \<and> trim (hd (textLines d)) = ''.LOG'')
   \<and> (isLogFile d \<longleftrightarrow>
        (\<exists>a b rest. textLines d = (a @ ''.LOG'' @ b) # rest
           \<and> list_all isWhiteSpace a \<and> list_all isWhiteSpace b))
   \<and> hasLogPrefix d = isLogFile d
   \<and> \<not> isLogFile (d\<lparr>textLines := []\<rparr>)
   \<and> \<not> isLogFile (d\<lparr>textLines := ''.log'' # rest\<rparr>)
   \<and> \<not> isLogFile (d\<lparr>textLines := ''prefix .LOG'' # rest\<rparr>)
   \<and> \<not> isLogFile (d\<lparr>textLines := ''.LOG extra'' # rest\<rparr>)
   \<and> \<not> isLogFile (d\<lparr>textLines := [''notes'', ''.LOG'']\<rparr>)"
proof -
  have 2: "isLogFile d \<longleftrightarrow>
        (\<exists>a b rest. textLines d = (a @ ''.LOG'' @ b) # rest
           \<and> list_all isWhiteSpace a \<and> list_all isWhiteSpace b)"
    by (cases "textLines d") (auto simp: isLogFile_iff trim_marker_iff)
  have 3: "hasLogPrefix d = isLogFile d"
    by (simp add: hasLogPrefix_def isLogFile_def LOG_PREFIX_def split: option.splits)
  have 4: "\<not> isLogFile (d\<lparr>textLines := []\<rparr>)"
    "\<not> isLogFile (d\<lparr>textLines := ''.log'' # rest\<rparr>)"
    "\<not> isLogFile (d\<lparr>textLines := ''prefix .LOG'' # rest\<rparr>)"
    "\<not> isLogFile (d\<lparr>textLines := ''.LOG extra'' # rest\<rparr>)"
    "\<not> isLogFile (d\<lparr>textLines := [''notes'', ''.LOG'']\<rparr>)"
    by (simp_all add: isLogFile_iff trim_def isWhiteSpace_def)
  from isLogFile_iff 2 3 4 show ?thesis by blast
qed

text \<open>
  C4 (as the code has it): for every instant, the generated timestamp is the year in decimal
  without padding, then \<^verbatim>\<open>-MM-DD hh:mm AM\<close> or \<^verbatim>\<open>-MM-DD hh:mm PM\<close>: the month, the day, the
  hour of the twelve-hour clock (01..12) and the minute, each as two zero-padded digits, with
  \<^verbatim>\<open>AM\<close> before noon and \<^verbatim>\<open>PM\<close> from noon on. For a four-digit year it has the form
  \<^verbatim>\<open>YYYY-MM-DD hh:mm AM\<close> or \<^verbatim>\<open>YYYY-MM-DD hh:mm PM\<close>, each field reads back as the number it
  shows, and it never has the 24-hour form \<^verbatim>\<open>YYYY-MM-DD HH:MM\<close>; for a year below 1000 it is
  shorter. Every handler passes it through unchanged between its prefix and the line feeds.
\<close>

theorem timestamp_twelve_hour:
  assumes "validDate d"
  shows "generateTimestamp d = intToString (getFullYear d) @
       [CHR ''-'', digitChar ((getMonth d + 1) div 10), digitChar (getMonth d + 1), CHR ''-'',
        digitChar (getDate d div 10), digitChar (getDate d), CHR '' '',
        digitChar (hours12 (getHours d) div 10), digitChar (hours12 (getHours d)), CHR '':'',
        digitChar (getMinutes d div 10), digitChar (getMinutes d), CHR '' '',
        (if getHours d < 12 then CHR ''A'' else CHR ''P''), CHR ''M'']
     \<and> 1 \<le> hours12 (getHours d) \<and> hours12 (getHours d) \<le> 12
     \<and> hours12 (getHours d) mod 12 = getHours d mod 12
     \<and> (1000 \<le> getFullYear d \<and> getFullYear d \<le> 9999 \<longrightarrow>
          intToString (getFullYear d) =
            [digitChar (nat (getFullYear d) div 1000), digitChar (nat (getFullYear d) div 100),
             digitChar (nat (getFullYear d) div 10), digitChar (nat (getFullYear d))]
          \<and> matches12Hour (generateTimestamp d)
          \<and> \<not> matches24Hour (generateTimestamp d)
          \<and> int (decimalValue (take 4 (generateTimestamp d))) = getFullYear d
          \<and> decimalValue (take 2 (drop 5 (generateTimestamp d))) = getMonth d + 1
          \<and> decimalValue (take 2 (drop 8 (generateTimestamp d))) = getDate d
          \<and> decimalValue (take 2 (drop 11 (generateTimestamp d))) = hours12 (getHours d)
          \<and> decimalValue (take 2 (drop 14 (generateTimestamp d))) = getMinutes d
          \<and> take 2 (drop 11 (generateTimestamp d))
               = padStart (natToString (hours12 (getHours d))) 2 (CHR ''0'')
          \<and> take 2 (drop 14 (generateTimestamp d))
               = padStart (natToString (getMinutes d)) 2 (CHR ''0'')
          \<and> drop 16 (generateTimestamp d) = (if getHours d < 12 then '' AM'' else '' PM''))
     \<and> (0 \<le> getFullYear d \<and> getFullYear d < 1000 \<longrightarrow>
          intToString (getFullYear d) =
            (if getFullYear d < 10 then [digitChar (nat (getFullYear d))]
             else if getFullYear d < 100
               then [digitChar (nat (getFullYear d) div 10), digitChar (nat (getFullYear d))]
             else [digitChar (nat (getFullYear d) div 100), digitChar (nat (getFullYear d) div 10),
                   digitChar (nat (getFullYear d))])
          \<and> length (generateTimestamp d) < 19
          \<and> \<not> matches12Hour (generateTimestamp d))
     \<and> handler_formatTimestamp TextFileHandler (generateTimestamp d)
          = newline # generateTimestamp d @ [newline]
     \<and> handler_formatTimestamp LogFileHandler (generateTimestamp d)
          = newline # generateTimestamp d @ [newline]
     \<and> handler_formatTimestamp MarkdownFileHandler (generateTimestamp d)
          = newline # ''## '' @ generateTimestamp d @ [newline]"
proof -
  note g = formatTimestamp_general[OF assms]
  have v: "getMonth d + 1 < 100" "getDate d < 100" "getMinutes d < 100"
    "hours12 (getHours d) < 100" "1 \<le> hours12 (getHours d)" "hours12 (getHours d) \<le> 12"
    "hours12 (getHours d) mod 12 = getHours d mod 12"
    using assms by (auto simp: validDate_def hours12_def mod_if)
  have four: "intToString (getFullYear d) =
            [digitChar (nat (getFullYear d) div 1000), digitChar (nat (getFullYear d) div 100),
             digitChar (nat (getFullYear d) div 10), digitChar (nat (getFullYear d))]
          \<and> matches12Hour (generateTimestamp d)
          \<and> \<not> matches24Hour (generateTimestamp d)
          \<and> int (decimalValue (take 4 (generateTimestamp d))) = getFullYear d
          \<and> decimalValue (take 2 (drop 5 (generateTimestamp d))) = getMonth d + 1
          \<and> decimalValue (take 2 (drop 8 (generateTimestamp d))) = getDate d
          \<and> decimalValue (take 2 (drop 11 (generateTimestamp d))) = hours12 (getHours d)
          \<and> decimalValue (take 2 (drop 14 (generateTimestamp d))) = getMinutes d
          \<and> take 2 (drop 11 (generateTimestamp d))
               = padStart (natToString (hours12 (getHours d))) 2 (CHR ''0'')
          \<and> take 2 (drop 14 (generateTimestamp d))
               = padStart (natToString (getMinutes d)) 2 (CHR ''0'')
          \<and> drop 16 (generateTimestamp d) = (if getHours d < 12 then '' AM'' else '' PM'')"
    if y: "1000 \<le> getFullYear d \<and> getFullYear d \<le> 9999"
  proof -
    have i: "intToString (getFullYear d) =
            [digitChar (nat (getFullYear d) div 1000), digitChar (nat (getFullYear d) div 100),
             digitChar (nat (getFullYear d) div 10), digitChar (nat (getFullYear d))]"
      using y by (simp add: intToString_four)
    have ny: "nat (getFullYear d) < 10000" using y by linarith
    have e: "generateTimestamp d =
       [digitChar (nat (getFullYear d) div 1000), digitChar (nat (getFullYear d) div 100),
        digitChar (nat (getFullYear d) div 10), digitChar (nat (getFullYear d)),
        CHR ''-'', digitChar ((getMonth d + 1) div 10), digitChar (getMonth d + 1), CHR ''-'',
        digitChar (getDate d div 10), digitChar (getDate d), CHR '' '',
        digitChar (hours12 (getHours d) div 10), digitChar (hours12 (getHours d)), CHR '':'',
        digitChar (getMinutes d div 10), digitChar (getMinutes d), CHR '' '',
        (if getHours d < 12 then CHR ''A'' else CHR ''P''), CHR ''M'']"
      by (simp add: generateTimestamp_def g i)
    have 1: "matches12Hour (generateTimestamp d)" "\<not> matches24Hour (generateTimestamp d)"
      unfolding e
      by (simp_all add: matches12Hour_def matches24Hour_def matchesDateTime_def isDigit_digitChar)
    have 2: "int (decimalValue (take 4 (generateTimestamp d))) = getFullYear d"
      unfolding e using decimalValue_4[OF ny] y by simp
    have 3: "decimalValue (take 2 (drop 5 (generateTimestamp d))) = getMonth d + 1"
      "decimalValue (take 2 (drop 8 (generateTimestamp d))) = getDate d"
      "decimalValue (take 2 (drop 11 (generateTimestamp d))) = hours12 (getHours d)"
      "decimalValue (take 2 (drop 14 (generateTimestamp d))) = getMinutes d"
      unfolding e using decimalValue_2[OF v(1)] decimalValue_2[OF v(2)] decimalValue_2[OF v(3)]
        decimalValue_2[OF v(4)]
      by simp_all
    have 4: "take 2 (drop 11 (generateTimestamp d))
               = padStart (natToString (hours12 (getHours d))) 2 (CHR ''0'')"
      "take 2 (drop 14 (generateTimestamp d))
               = padStart (natToString (getMinutes d)) 2 (CHR ''0'')"
      "drop 16 (generateTimestamp d) = (if getHours d < 12 then '' AM'' else '' PM'')"
      unfolding e padStart_2[OF v(4)] padStart_2[OF v(3)] by simp_all
    from i 1 2 3 4 show ?thesis by blast
  qed
  have short: "intToString (getFullYear d) =
            (if getFullYear d < 10 then [digitChar (nat (getFullYear d))]
             else if getFullYear d < 100
               then [digitChar (nat (getFullYear d) div 10), digitChar (nat (getFullYear d))]
             else [digitChar (nat (getFullYear d) div 100), digitChar (nat (getFullYear d) div 10),
                   digitChar (nat (getFullYear d))])
          \<and> length (generateTimestamp d) < 19
          \<and> \<not> matches12Hour (generateTimestamp d)"
    if y: "0 \<le> getFullYear d \<and> getFullYear d < 1000"
  proof -
    have i: "intToString (getFullYear d) =
            (if getFullYear d < 10 then [digitChar (nat (getFullYear d))]
             else if getFullYear d < 100
               then [digitChar (nat (getFullYear d) div 10), digitChar (nat (getFullYear d))]
             else [digitChar (nat (getFullYear d) div 100), digitChar (nat (getFullYear d) div 10),
                   digitChar (nat (getFullYear d))])"
      using y by (simp add: intToString_short)
    have l: "length (generateTimestamp d) < 19"
      by (simp add: generateTimestamp_def g i)
    then have "\<not> matches12Hour (generateTimestamp d)" by (simp add: matches12Hour_def)
    with i l show ?thesis by blast
  qed
  have hd: "handler_formatTimestamp TextFileHandler (generateTimestamp d)
          = newline # generateTimestamp d @ [newline]"
     "handler_formatTimestamp LogFileHandler (generateTimestamp d)
          = newline # generateTimestamp d @ [newline]"
     "handler_formatTimestamp MarkdownFileHandler (generateTimestamp d)
          = newline # ''## '' @ generateTimestamp d @ [newline]"
    by simp_all
  have eq: "generateTimestamp d = intToString (getFullYear d) @
       [CHR ''-'', digitChar ((getMonth d + 1) div 10), digitChar (getMonth d + 1), CHR ''-'',
        digitChar (getDate d div 10), digitChar (getDate d), CHR '' '',
        digitChar (hours12 (getHours d) div 10), digitChar (hours12 (getHours d)), CHR '':'',
        digitChar (getMinutes d div 10), digitChar (getMinutes d), CHR '' '',
        (if getHours d < 12 then CHR ''A'' else CHR ''P''), CHR ''M'']"
    by (simp add: generateTimestamp_def g)
  from eq v(5,6,7) four short hd show ?thesis by blast
qed

theorem timestamp_twelve_hour_witness:
  "validDate exampleDate \<and> 1000 \<le> getFullYear exampleDate \<and> getFullYear exampleDate \<le> 9999
   \<and> matches12Hour (generateTimestamp exampleDate)
   \<and> generateTimestamp exampleDate = ''2025-07-24 01:25 PM''
   \<and> decimalValue (take 2 (drop 14 (generateTimestamp exampleDate))) = 25
   \<and> validDate (exampleDate\<lparr>getFullYear := 999\<rparr>)
   \<and> 0 \<le> getFullYear (exampleDate\<lparr>getFullYear := 999\<rparr>)
   \<and> getFullYear (exampleDate\<lparr>getFullYear := 999\<rparr>) < 1000
   \<and> \<not> matches12Hour (generateTimestamp (exampleDate\<lparr>getFullYear := 999\<rparr>))"
proof -
  have h: "validDate exampleDate" "1000 \<le> getFullYear exampleDate \<and> getFullYear exampleDate \<le> 9999"
    by (simp_all add: exampleDate_def validDate_def)
  have k: "validDate (exampleDate\<lparr>getFullYear := 999\<rparr>)"
    "0 \<le> getFullYear (exampleDate\<lparr>getFullYear := 999\<rparr>)
      \<and> getFullYear (exampleDate\<lparr>getFullYear := 999\<rparr>) < 1000"
    by (simp_all add: exampleDate_def validDate_def)
  have e: "generateTimestamp exampleDate = ''2025-07-24 01:25 PM''"
    by (simp add: eval_time)
  have m: "getMinutes exampleDate = 25" by (simp add: exampleDate_def)
  from timestamp_twelve_hour[OF h(1)] h(2)
  have a: "matches12Hour (generateTimestamp exampleDate)"
    "decimalValue (take 2 (drop 14 (generateTimestamp exampleDate))) = getMinutes exampleDate"
    by blast+
  from timestamp_twelve_hour[OF k(1)] k(2)
  have b: "\<not> matches12Hour (generateTimestamp (exampleDate\<lparr>getFullYear := 999\<rparr>))"
    by blast
  from h k e a b m show ?thesis by simp
qed

text \<open>
  The 24-hour form fails at 13:25 on 24 July 2025, and a year below 1000 is not padded.
\<close>

theorem timestamp_twelve_hour_counterexample:
  "generateTimestamp exampleDate = ''2025-07-24 01:25 PM''
   \<and> \<not> matches24Hour (generateTimestamp exampleDate)
   \<and> generateTimestamp (exampleDate\<lparr>getFullYear := 999\<rparr>) = ''999-07-24 01:25 PM''"
  by (simp add: eval_time matches24Hour_def matchesDateTime_def)

text \<open>
  C5 (as the code has it): for every document whose extension is none of \<^verbatim>\<open>txt\<close>, \<^verbatim>\<open>log\<close>, \<^verbatim>\<open>md\<close> and
  whose language identifier is none of \<^verbatim>\<open>plaintext\<close>, \<^verbatim>\<open>log\<close>, \<^verbatim>\<open>markdown\<close>, the run leaves the
  text unchanged and requests no edit, with or without the marker.
\<close>

theorem unsupported_type_untouched:
  assumes "case extensionMatch (fileName (document w)) of
             None \<Rightarrow> True | Some m \<Rightarrow> toLowerCase m \<notin> SUPPORTED_EXTENSIONS"
    and "languageType (languageId (document w)) = None"
  shows "document (snd (onDocumentOpened fileHandlers now host w)) = document w
     \<and> editCalls (snd (onDocumentOpened fileHandlers now host w)) = editCalls w
     \<and> handleDocumentOpened fileHandlers now host w = w"
proof -
  have "getFileType (document w) = None"
    using assms by (cases "extensionMatch (fileName (document w))") (simp_all add: getFileType_def Let_def)
  then show ?thesis
    by (simp add: onDocumentOpened_def handleDocumentOpened_def analyzeContent_def orElse_def
          Let_def logError_def)
qed

theorem unsupported_type_untouched_witness:
  "(case extensionMatch (fileName (document (worldOf (fileDocument ''script.py'' ''python'' [''.LOG''])))) of
      None \<Rightarrow> True | Some m \<Rightarrow> toLowerCase m \<notin> SUPPORTED_EXTENSIONS)
   \<and> languageType (languageId (document (worldOf (fileDocument ''script.py'' ''python'' [''.LOG''])))) = None
   \<and> isLogFile (document (worldOf (fileDocument ''script.py'' ''python'' [''.LOG''])))
   \<and> document (snd (onDocumentOpened activate_fileHandlers exampleDate alwaysApplied
         (worldOf (fileDocument ''script.py'' ''python'' [''.LOG'']))))
       = fileDocument ''script.py'' ''python'' [''.LOG'']
   \<and> handleDocumentOpened activate_fileHandlers exampleDate alwaysApplied
         (worldOf (fileDocument ''script.py'' ''python'' [''.LOG'']))
       = worldOf (fileDocument ''script.py'' ''python'' [''.LOG''])"
proof -
  define w0 where "w0 = worldOf (fileDocument ''script.py'' ''python'' [''.LOG''])"
  have h: "case extensionMatch (fileName (document w0)) of
      None \<Rightarrow> True | Some m \<Rightarrow> toLowerCase m \<notin> SUPPORTED_EXTENSIONS"
    "languageType (languageId (document w0)) = None"
    by (simp_all add: w0_def eval_type)
  have l: "isLogFile (document w0)" by (simp add: w0_def eval_doc)
  have d: "document w0 = fileDocument ''script.py'' ''python'' [''.LOG'']"
    by (simp add: w0_def worldOf_def)
  from unsupported_type_untouched[OF h, of activate_fileHandlers exampleDate alwaysApplied] h l d
  show ?thesis unfolding w0_def by simp
qed

text \<open>
  A file \<^verbatim>\<open>notes.markdown\<close> that the editor reports as markdown, with the marker: its
  extension is not supported, and a heading with the timestamp is appended.
\<close>

theorem unsupported_type_untouched_counterexample:
  "extensionMatch (fileName (fileDocument ''notes.markdown'' ''markdown'' [''.LOG''])) = Some ''markdown''
   \<and> toLowerCase ''markdown'' \<notin> SUPPORTED_EXTENSIONS
   \<and> isLogFile (fileDocument ''notes.markdown'' ''markdown'' [''.LOG''])
   \<and> getText (fileDocument ''notes.markdown'' ''markdown'' [''.LOG'']) = ''.LOG''
   \<and> getText (document (snd (onDocumentOpened activate_fileHandlers exampleDate alwaysApplied
         (worldOf (fileDocument ''notes.markdown'' ''markdown'' [''.LOG''])))))
       = ''.LOG'' @ [newline, newline] @ ''## 2025-07-24 01:25 PM'' @ [newline]"
proof -
  define w0 where "w0 = worldOf (fileDocument ''notes.markdown'' ''markdown'' [''.LOG''])"
  have h: "getFileType (document w0) = Some MARKDOWN" "isLogFile (document w0)"
    "activate_fileHandlers MARKDOWN = Some MarkdownFileHandler" "canModifyDocument (document w0)"
    "alwaysApplied (editCalls w0) = Applied"
    by (simp_all add: w0_def eval_type eval_doc activate_fileHandlers_def)
  have ne: "textLines (document w0) \<noteq> []" by (simp add: w0_def worldOf_def fileDocument_def)
  have d: "document w0 = fileDocument ''notes.markdown'' ''markdown'' [''.LOG'']"
    by (simp add: w0_def worldOf_def)
  have "getText (document (snd (onDocumentOpened activate_fileHandlers exampleDate alwaysApplied w0)))
      = getText (document w0) @ prepareTextForInsertion (document w0)
          (handler_formatTimestamp MarkdownFileHandler (generateTimestamp exampleDate))"
    using onDocumentOpened_applied[where fileHandlers=activate_fileHandlers and w=w0 and host=alwaysApplied,
        OF h, of exampleDate]
    by (simp add: getText_endEdit[OF ne])
  also have "\<dots> = ''.LOG'' @ [newline, newline] @ ''## 2025-07-24 01:25 PM'' @ [newline]"
    using prepare_formatted[OF ne, of MARKDOWN "generateTimestamp exampleDate"]
    by (simp add: activate_formats[OF h(3)] d getText_def fileDocument_def spec_insertionFormat_def eval_time)
  finally have "getText (document (snd (onDocumentOpened activate_fileHandlers exampleDate alwaysApplied w0)))
      = ''.LOG'' @ [newline, newline] @ ''## 2025-07-24 01:25 PM'' @ [newline]" .
  moreover have "extensionMatch (fileName (fileDocument ''notes.markdown'' ''markdown'' [''.LOG''])) = Some ''markdown''"
    "toLowerCase ''markdown'' \<notin> SUPPORTED_EXTENSIONS"
    "getText (fileDocument ''notes.markdown'' ''markdown'' [''.LOG'']) = ''.LOG''"
    by (simp_all add: eval_type getText_def)
  ultimately show ?thesis using h(2) unfolding w0_def d[unfolded w0_def] by simp
qed

text \<open>
  C6: for a document with at least one line, the prepared insertion is the input text with
  a line feed before it exactly when the last line is not empty and a line feed after it
  exactly when the text does not end in one. Opening \<^verbatim>\<open>notes.txt\<close> with the lines \<^verbatim>\<open>.LOG\<close> and
  \<^verbatim>\<open>Meeting notes\<close> leaves the lines \<^verbatim>\<open>.LOG\<close>, \<^verbatim>\<open>Meeting notes\<close>, an empty line and the
  timestamp line; the text ends in a line feed, so an empty last line follows.
\<close>

theorem prepared_insertion:
  "(textLines d \<noteq> [] \<longrightarrow>
      prepareTextForInsertion d t =
        (if last (textLines d) \<noteq> [] then [newline] else []) @ t
          @ (if endsWith t [newline] then [] else [newline]))
   \<and> (document w = fileDocument ''notes.txt'' lang [''.LOG'', ''Meeting notes'']
        \<and> host (editCalls w) = Applied \<longrightarrow>
      textLines (document (snd (onDocumentOpened activate_fileHandlers now host w)))
        = [''.LOG'', ''Meeting notes'', [], generateTimestamp now, []])"
proof -
  have 1: "textLines d \<noteq> [] \<longrightarrow>
      prepareTextForInsertion d t =
        (if last (textLines d) \<noteq> [] then [newline] else []) @ t
          @ (if endsWith t [newline] then [] else [newline])"
    by (simp add: prepare_eq)
  have 2: "textLines (document (snd (onDocumentOpened activate_fileHandlers now host w)))
        = [''.LOG'', ''Meeting notes'', [], generateTimestamp now, []]"
    if d: "document w = fileDocument ''notes.txt'' lang [''.LOG'', ''Meeting notes'']"
      and h: "host (editCalls w) = Applied"
  proof -
    have ft: "getFileType (document w) = Some TEXT"
      by (simp add: d eval_type)
    have lf: "isLogFile (document w)"
      by (simp add: d isLogFile_iff fileDocument_def trim_def isWhiteSpace_def)
    have cm: "canModifyDocument (document w)"
      by (simp add: d canModifyDocument_def fileDocument_def)
    have ne: "textLines (document w) \<noteq> []" by (simp add: d fileDocument_def)
    have ah: "activate_fileHandlers TEXT = Some TextFileHandler"
      by (simp add: activate_fileHandlers_def)
    define ts where "ts = generateTimestamp now"
    have nts: "newline \<notin> set ts" by (simp add: ts_def generateTimestamp_def newline_formatTimestamp)
    obtain r w1 where p: "processDocument TextFileHandler host ts w = (r, w1)"
      by (cases "processDocument TextFileHandler host ts w")
    have s: "success r"
      using processDocument_first[where host=host and w=w, OF cm ne h, of TextFileHandler ts] p by simp
    have "appended (document w) (handler_formatTimestamp TextFileHandler ts) r w1"
      by (rule processDocument_outcome[OF cm ne p])
    with s have dw: "document w1 =
        editedDocument (endEdit (document w) (handler_formatTimestamp TextFileHandler ts)) (document w)"
      by (simp add: appended_def)
    have mn: "newline \<notin> set ''Meeting notes''" by (simp add: newline_def)
    have pr: "prepareTextForInsertion (document w) (handler_formatTimestamp TextFileHandler ts)
                = newline # newline # ts @ [newline]"
      using prepare_formatted[OF ne, of TEXT ts]
      by (simp add: activate_formats[OF ah] d fileDocument_def spec_insertionFormat_def)
    have "splitLines (''Meeting notes'' @ newline # (newline # ts @ [newline]))
            = ''Meeting notes'' # splitLines (newline # ts @ [newline])"
      by (rule splitLines_break[OF mn])
    also have "splitLines (newline # ts @ [newline]) = [] # splitLines (ts @ [newline])"
      by simp
    also have "splitLines (ts @ [newline]) = ts # splitLines []"
      by (rule splitLines_break[OF nts])
    finally have sp: "splitLines (''Meeting notes'' @ newline # (newline # ts @ [newline]))
            = [''Meeting notes'', [], ts, []]"
      by simp
    have "textLines (document w1) = [''.LOG''] @ splitLines (''Meeting notes'' @ newline # (newline # ts @ [newline]))"
      unfolding dw textLines_endEdit[OF ne] pr by (simp add: d fileDocument_def)
    then have "textLines (document w1) = [''.LOG'', ''Meeting notes'', [], ts, []]"
      unfolding sp by simp
    then show ?thesis
      unfolding onDocumentOpened_processes[where fileHandlers=activate_fileHandlers and w=w, OF ft lf ah] ts_def[symmetric] p using s by simp
  qed
  from 1 2 show ?thesis by blast
qed

theorem prepared_insertion_witness:
  "textLines (fileDocument ''notes.txt'' ''plaintext'' [''.LOG'', ''Meeting notes'']) \<noteq> []
   \<and> prepareTextForInsertion (fileDocument ''notes.txt'' ''plaintext'' [''.LOG'', ''Meeting notes''])
        ''2025-07-24 01:25 PM''
       = [newline] @ ''2025-07-24 01:25 PM'' @ [newline]
   \<and> document (worldOf (fileDocument ''notes.txt'' ''plaintext'' [''.LOG'', ''Meeting notes'']))
       = fileDocument ''notes.txt'' ''plaintext'' [''.LOG'', ''Meeting notes'']
   \<and> alwaysApplied (editCalls (worldOf (fileDocument ''notes.txt'' ''plaintext'' [''.LOG'', ''Meeting notes'']))) = Applied
   \<and> textLines (document (snd (onDocumentOpened activate_fileHandlers exampleDate alwaysApplied
         (worldOf (fileDocument ''notes.txt'' ''plaintext'' [''.LOG'', ''Meeting notes''])))))
       = [''.LOG'', ''Meeting notes'', [], ''2025-07-24 01:25 PM'', []]"
proof -
  define d where "d = fileDocument ''notes.txt'' ''plaintext'' [''.LOG'', ''Meeting notes'']"
  have h: "textLines d \<noteq> []" "document (worldOf d) = d" "alwaysApplied (editCalls (worldOf d)) = Applied"
    by (simp_all add: d_def fileDocument_def worldOf_def alwaysApplied_def)
  have e: "\<not> endsWith ''2025-07-24 01:25 PM'' [newline]" "last (textLines d) \<noteq> []"
    by (simp_all add: endsWith_def suffix_to_prefix newline_def d_def fileDocument_def)
  have g: "generateTimestamp exampleDate = ''2025-07-24 01:25 PM''" by (simp add: eval_time)
  from prepared_insertion[of d "''2025-07-24 01:25 PM''" "worldOf d" "''plaintext''" alwaysApplied exampleDate]
    h e g
  show ?thesis unfolding d_def by simp
qed

text \<open>
  C7 (as the code has it): for every document that is not mutable, \<^verbatim>\<open>processDocument\<close> returns a
  failure with the message \<^verbatim>\<open>Document is read-only or cannot be modified\<close>,
  \<^verbatim>\<open>documentModified = false\<close> and the state \<^verbatim>\<open>failed\<close>, and changes nothing: no edit is
  requested, nothing is logged as an error. The result carries no error kind; the kind
  \<^verbatim>\<open>PERMISSION_DENIED\<close> is the one \<^verbatim>\<open>insertTextAtEnd\<close> returns for such a document.
\<close>

theorem not_mutable_fails:
  assumes "\<not> canModifyDocument (document w)"
  shows "processDocument handler host ts w =
           (\<lparr>success = False, error = Some ''Document is read-only or cannot be modified'',
             documentModified = False, processingState = FAILED, timestamp = None\<rparr>, w)
         \<and> errorCode (fst (insertTextAtEnd host t w)) = Some (ErrorCode_value PERMISSION_DENIED)
         \<and> \<not> success (fst (insertTextAtEnd host t w))
         \<and> document (snd (insertTextAtEnd host t w)) = document w
         \<and> editCalls (snd (insertTextAtEnd host t w)) = editCalls w
         \<and> canModifyDocument d =
             (\<not> isClosed d \<and> ((isUntitled d \<and> \<not> isDirty d) \<or> scheme d = ''file''
                \<or> scheme d = ''untitled''))"
  using assms
  by (auto simp: processDocument_def insertTextAtEnd_def recoverFromPermissionError_def
        logPermissionError_def logError_def failed_def canModifyDocument_def Let_def
        split: sum.splits)

theorem not_mutable_fails_witness:
  "\<not> canModifyDocument (document (worldOf ((fileDocument ''notes.txt'' ''plaintext'' [''.LOG''])\<lparr>isClosed := True\<rparr>)))
   \<and> snd (processDocument TextFileHandler alwaysApplied ''2025-07-24 01:25 PM''
        (worldOf ((fileDocument ''notes.txt'' ''plaintext'' [''.LOG''])\<lparr>isClosed := True\<rparr>)))
      = worldOf ((fileDocument ''notes.txt'' ''plaintext'' [''.LOG''])\<lparr>isClosed := True\<rparr>)
   \<and> \<not> success (fst (processDocument TextFileHandler alwaysApplied ''2025-07-24 01:25 PM''
        (worldOf ((fileDocument ''notes.txt'' ''plaintext'' [''.LOG''])\<lparr>isClosed := True\<rparr>))))"
proof -
  have h: "\<not> canModifyDocument (document (worldOf ((fileDocument ''notes.txt'' ''plaintext'' [''.LOG''])\<lparr>isClosed := True\<rparr>)))"
    by (simp add: canModifyDocument_def worldOf_def fileDocument_def)
  show ?thesis
    using h not_mutable_fails[OF h, of TextFileHandler alwaysApplied "''2025-07-24 01:25 PM''"]
    by simp
qed

text \<open>
  A document of the \<^verbatim>\<open>git\<close> scheme: the result has a message and no kind, and no
  permission-denied error is recorded.
\<close>

theorem not_mutable_counterexample:
  "fst (processDocument TextFileHandler alwaysApplied ''2025-07-24 01:25 PM''
        (worldOf ((fileDocument ''notes.txt'' ''plaintext'' [''.LOG''])\<lparr>scheme := ''git''\<rparr>)))
     = \<lparr>success = False, error = Some ''Document is read-only or cannot be modified'',
        documentModified = False, processingState = FAILED, timestamp = None\<rparr>
   \<and> PERMISSION_DENIED \<notin> code ` set (errorHistory (snd (processDocument TextFileHandler alwaysApplied
        ''2025-07-24 01:25 PM''
        (worldOf ((fileDocument ''notes.txt'' ''plaintext'' [''.LOG''])\<lparr>scheme := ''git''\<rparr>)))))"
  by (simp add: processDocument_def canModifyDocument_def worldOf_def fileDocument_def)

text \<open>
  C8: when the append succeeds and the cursor placement that follows fails,
  \<^verbatim>\<open>processDocument\<close> returns a success with \<^verbatim>\<open>documentModified = true\<close>.
\<close>

theorem cursor_failure_is_success:
  assumes "insertTextAtEnd host (handler_formatTimestamp handler ts) w = (insertResult, w1)"
    and "success insertResult"
    and "positionCursorAtEnd w1 = (cursorResult, w2)"
    and "\<not> success cursorResult"
  shows "processDocument handler host ts w =
           (\<lparr>success = True, error = None, documentModified = True,
             processingState = COMPLETED, timestamp = Some (handler_formatTimestamp handler ts)\<rparr>, w2)"
proof -
  have "canModifyDocument (document w)"
    using insertTextAtEnd_not_mutable[of w host "handler_formatTimestamp handler ts"] assms(1,2)
    by auto
  then show ?thesis using assms by (simp add: processDocument_def)
qed

theorem cursor_failure_is_success_witness:
  "success (fst (insertTextAtEnd alwaysApplied (handler_formatTimestamp TextFileHandler ''2025-07-24 01:25 PM'')
       (worldOf (fileDocument ''notes.txt'' ''plaintext'' [''.LOG'']))))
   \<and> \<not> success (fst (positionCursorAtEnd (snd (insertTextAtEnd alwaysApplied
       (handler_formatTimestamp TextFileHandler ''2025-07-24 01:25 PM'')
       (worldOf (fileDocument ''notes.txt'' ''plaintext'' [''.LOG'']))))))
   \<and> success (fst (processDocument TextFileHandler alwaysApplied ''2025-07-24 01:25 PM''
       (worldOf (fileDocument ''notes.txt'' ''plaintext'' [''.LOG'']))))
   \<and> documentModified (fst (processDocument TextFileHandler alwaysApplied ''2025-07-24 01:25 PM''
       (worldOf (fileDocument ''notes.txt'' ''plaintext'' [''.LOG'']))))"
proof -
  define w0 where "w0 = worldOf (fileDocument ''notes.txt'' ''plaintext'' [''.LOG''])"
  define t where "t = handler_formatTimestamp TextFileHandler ''2025-07-24 01:25 PM''"
  have m: "canModifyDocument (document w0)" "textLines (document w0) \<noteq> []"
    "alwaysApplied (editCalls w0) = Applied"
    by (simp_all add: w0_def canModifyDocument_def worldOf_def fileDocument_def alwaysApplied_def)
  note i = insertTextAtEnd_first[where host=alwaysApplied and w=w0 and ?text=t, OF m]
  have s: "success (fst (insertTextAtEnd alwaysApplied t w0))" by (simp add: i)
  have c: "\<not> success (fst (positionCursorAtEnd (snd (insertTextAtEnd alwaysApplied t w0))))"
    unfolding i by (simp add: positionCursorAtEnd_def failed_def w0_def worldOf_def)
  from cursor_failure_is_success[of alwaysApplied TextFileHandler "''2025-07-24 01:25 PM''" w0
      "fst (insertTextAtEnd alwaysApplied t w0)" "snd (insertTextAtEnd alwaysApplied t w0)"
      "fst (positionCursorAtEnd (snd (insertTextAtEnd alwaysApplied t w0)))"
      "snd (positionCursorAtEnd (snd (insertTextAtEnd alwaysApplied t w0)))"] s c
  have "processDocument TextFileHandler alwaysApplied ''2025-07-24 01:25 PM'' w0 =
           (\<lparr>success = True, error = None, documentModified = True,
             processingState = COMPLETED, timestamp = Some t\<rparr>,
            snd (positionCursorAtEnd (snd (insertTextAtEnd alwaysApplied t w0))))"
    by (simp add: t_def)
  with s c show ?thesis unfolding w0_def t_def by simp
qed

text \<open>
  C9: the monitor has two states. \<^verbatim>\<open>startMonitoring\<close> fails without a change when active and
  otherwise, once the host has returned the subscription, makes the monitor active;
  \<^verbatim>\<open>stopMonitoring\<close> fails when inactive and otherwise, once the subscription is disposed
  of, makes it inactive; \<^verbatim>\<open>dispose\<close> leaves it inactive from either state, and a second
  \<^verbatim>\<open>dispose\<close> changes nothing.
\<close>

theorem monitor_two_states:
  "(isActive (monitor w) \<longrightarrow>
      startMonitoring subscription w
        = (failed ''File monitoring is already active'' ''MONITOR_ALREADY_ACTIVE'', w))
   \<and> (\<not> isActive (monitor w) \<longrightarrow>
      success (fst (startMonitoring (Inr s) w))
      \<and> snd (startMonitoring (Inr s) w)
           = w\<lparr>monitor := (monitor w)\<lparr>disposable := Some s, isActive := True\<rparr>\<rparr>)
   \<and> (isActive (monitor w) \<longrightarrow>
      success (fst (stopMonitoring None w))
      \<and> snd (stopMonitoring None w)
           = w\<lparr>monitor := (monitor w)\<lparr>disposable := None, isActive := False\<rparr>\<rparr>)
   \<and> (\<not> isActive (monitor w) \<longrightarrow>
      stopMonitoring disposal w
        = (failed ''File monitoring is not active'' ''MONITOR_NOT_ACTIVE'', w))
   \<and> \<not> isMonitoring (dispose None w)
   \<and> dispose disposal (dispose None w) = dispose None w"
  by (simp add: startMonitoring_def stopMonitoring_def dispose_def isMonitoring_def failed_def)

theorem monitor_two_states_witness:
  "\<not> isActive (monitor (worldOf (fileDocument ''notes.txt'' ''plaintext'' [''.LOG''])))
   \<and> isActive (monitor (snd (startMonitoring (Inr 1) (worldOf (fileDocument ''notes.txt'' ''plaintext'' [''.LOG''])))))
   \<and> \<not> success (fst (startMonitoring (Inr 2)
         (snd (startMonitoring (Inr 1) (worldOf (fileDocument ''notes.txt'' ''plaintext'' [''.LOG'']))))))
   \<and> snd (stopMonitoring None
         (snd (startMonitoring (Inr 1) (worldOf (fileDocument ''notes.txt'' ''plaintext'' [''.LOG''])))))
       = worldOf (fileDocument ''notes.txt'' ''plaintext'' [''.LOG''])
   \<and> \<not> success (fst (stopMonitoring None (worldOf (fileDocument ''notes.txt'' ''plaintext'' [''.LOG'']))))"
proof -
  define w0 where "w0 = worldOf (fileDocument ''notes.txt'' ''plaintext'' [''.LOG''])"
  define w1 where "w1 = snd (startMonitoring (Inr 1) w0)"
  have i: "\<not> isActive (monitor w0)" by (simp add: w0_def worldOf_def)
  from monitor_two_states[of w0 "Inr 1" 1 None] i
  have a: "isActive (monitor w1)" "w1 = w0\<lparr>monitor := (monitor w0)\<lparr>disposable := Some 1, isActive := True\<rparr>\<rparr>"
    by (simp_all add: w1_def)
  from monitor_two_states[of w1 "Inr 2" 2 None] a(1)
  have b: "\<not> success (fst (startMonitoring (Inr 2) w1))"
    "snd (stopMonitoring None w1) = w1\<lparr>monitor := (monitor w1)\<lparr>disposable := None, isActive := False\<rparr>\<rparr>"
    by (simp_all add: failed_def)
  from monitor_two_states[of w0 "Inr 1" 1 None] i
  have c: "\<not> success (fst (stopMonitoring None w0))" by (simp add: failed_def)
  have "snd (stopMonitoring None w1) = w0"
    using b(2) a(2) by (simp add: w0_def worldOf_def)
  with i a(1) b(1) c show ?thesis unfolding w1_def w0_def by simp
qed

text \<open>
  C10: for a document of no supported type, \<^verbatim>\<open>onDocumentOpened\<close> returns a failed result
  with the message \<^verbatim>\<open>Unsupported file type\<close> and logs a content-analysis error; the
  listener of the open event returns before that and leaves the state as it was.
\<close>

theorem unsupported_type_fails:
  assumes "getFileType (document w) = None"
  shows "onDocumentOpened fileHandlers now host w =
           (\<lparr>success = False, error = Some ''Unsupported file type'', documentModified = False,
             processingState = FAILED, timestamp = None\<rparr>,
            logError ''Unsupported file type'' (Some CONTENT_ANALYSIS_FAILED) w)
         \<and> handleDocumentOpened fileHandlers now host w = w"
  using assms
  by (simp add: onDocumentOpened_def handleDocumentOpened_def analyzeContent_def orElse_def Let_def)

theorem unsupported_type_fails_witness:
  "getFileType (document (worldOf (fileDocument ''script.py'' ''python'' [''.LOG'']))) = None
   \<and> fst (onDocumentOpened activate_fileHandlers exampleDate alwaysApplied
             (worldOf (fileDocument ''script.py'' ''python'' [''.LOG'']))) =
         \<lparr>success = False, error = Some ''Unsupported file type'', documentModified = False,
          processingState = FAILED, timestamp = None\<rparr>
   \<and> handleDocumentOpened activate_fileHandlers exampleDate alwaysApplied
         (worldOf (fileDocument ''script.py'' ''python'' [''.LOG'']))
       = worldOf (fileDocument ''script.py'' ''python'' [''.LOG''])"
proof -
  have h: "getFileType (document (worldOf (fileDocument ''script.py'' ''python'' [''.LOG'']))) = None"
    by (simp add: eval_type)
  show ?thesis
    using h unsupported_type_fails[OF h, of activate_fileHandlers exampleDate alwaysApplied]
    by simp
qed

end
